theory Spec2Isabelle
  imports Complex_Main "HOL-Library.Sublist"
begin

section \<open>The kaguya backend: data model\<close>

text \<open>
  The embedding follows \<^verbatim>\<open>backend.py\<close>. Python strings are \<^typ>\<open>string\<close>; Python's
  \<^verbatim>\<open>None\<close> is \<^term>\<open>None\<close>; every exception the source can catch is a value
  of \<open>py_exception\<close>, and a call of an external collaborator (the Spotify web API,
  the cascade detector, the classifier) is a field of an environment record whose
  result is either an exception or a value.
\<close>

datatype py_exception = PyException

text \<open>The module constant \<^verbatim>\<open>MOOD_LABELS\<close>, a dict from class index to mood name.\<close>

definition MOOD_LABELS :: "(nat \<times> string) list" where
  "MOOD_LABELS =
     [(0, ''Angry''), (1, ''Disgust''), (2, ''Fear''), (3, ''Happy''),
      (4, ''Sad''), (5, ''Surprise''), (6, ''Neutral'')]"

text \<open>\<^verbatim>\<open>MOOD_LABELS.values()\<close>.\<close>

definition MOOD_LABELS_values :: "string list" where
  "MOOD_LABELS_values = map snd MOOD_LABELS"

subsection \<open>Catalog tracks\<close>

text \<open>
  A track object as the catalog returns it: the fields \<^verbatim>\<open>search_spotify_by_mood\<close>
  reads. The id is optional since Python compares and hashes a null id like any other.
\<close>

record album_obj =
  album_name :: string
  images :: "string list"

record raw_track =
  raw_id :: "string option"
  raw_name :: string
  artists :: "string list"
  album :: album_obj
  raw_preview_url :: "string option"
  external_url :: string
  raw_duration_ms :: int
  raw_popularity :: int

text \<open>
  The dict \<^verbatim>\<open>track_info\<close> built for every surviving track. The playlist functions
  read \<^verbatim>\<open>id\<close>, \<^verbatim>\<open>name\<close> and \<^verbatim>\<open>artist\<close> with \<^verbatim>\<open>dict.get\<close>, so these
  may be absent.
\<close>

record track_info =
  track_id :: "string option"
  track_name :: "string option"
  artist :: "string option"
  album_title :: string
  image_url :: "string option"
  preview_url :: "string option"
  spotify_url :: string
  duration_ms :: int
  popularity :: int

subsection \<open>External collaborators\<close>

text \<open>
  \<^verbatim>\<open>spotify_client\<close> is \<^verbatim>\<open>None\<close> until initialised. Its \<^verbatim>\<open>search\<close> takes the
  query, the limit and the market and either raises or yields
  \<^verbatim>\<open>results['tracks']['items']\<close>, whose entries may be null.
\<close>

type_synonym search_client = "string \<Rightarrow> int \<Rightarrow> string \<Rightarrow> py_exception + raw_track option list"

text \<open>A playlist object of the web API: the three fields the source reads.\<close>

record playlist_obj =
  playlist_id :: string
  playlist_name :: string
  playlist_url :: string

text \<open>
  Everything outside the process that the Spotify functions consult: the two module
  globals \<^verbatim>\<open>spotify_client\<close> and \<^verbatim>\<open>spotify_oauth\<close>, the environment variable
  \<^verbatim>\<open>SPOTIFY_MARKET\<close>, the token cache, and the outcome of each call made on the
  authenticated client \<^verbatim>\<open>sp\<close>. \<open>current_user_check\<close> is the call
  \<^verbatim>\<open>sp.current_user()\<close> that tests the token inside
  \<^verbatim>\<open>get_authenticated_spotify_client\<close>; \<open>current_user\<close> is the later call whose
  \<^verbatim>\<open>['id']\<close> is read. \<open>str_lower\<close> is the interpreter's \<^verbatim>\<open>str.lower\<close>, whose
  Unicode case tables are not part of the program.
\<close>

record env =
  spotify_client :: "search_client option"
  SPOTIFY_MARKET :: "string option"
  spotify_oauth :: bool
  get_cached_token :: "py_exception + string option"
  current_user_check :: "py_exception + unit"
  current_user :: "py_exception + string"
  user_playlist_create :: "string \<Rightarrow> string \<Rightarrow> string \<Rightarrow> py_exception + playlist_obj"
  playlist_add_items :: "string \<Rightarrow> string list \<Rightarrow> py_exception + unit"
  current_user_playlists :: "nat \<Rightarrow> nat \<Rightarrow> py_exception + playlist_obj list"
  user_playlist_unfollow :: "string \<Rightarrow> string \<Rightarrow> py_exception + unit"
  str_lower :: "string \<Rightarrow> string"

subsection \<open>Process state\<close>

text \<open>
  The module global \<^verbatim>\<open>created_playlists\<close>, a dict from mood to playlist URL, and a
  trace of the calls made on the authenticated client, kept so that "no external call"
  can be stated.
\<close>

datatype api_call =
    CurrentUser
  | UserPlaylistCreate string string string
  | PlaylistAddItems string "string list"
  | CurrentUserPlaylists nat nat
  | UserPlaylistUnfollow string string

record state =
  created_playlists :: "string \<rightharpoonup> string"
  api_calls :: "api_call list"

definition log_call :: "api_call \<Rightarrow> state \<Rightarrow> state" where
  "log_call c s = s\<lparr>api_calls := api_calls s @ [c]\<rparr>"

datatype http_exception = HTTPException nat

subsection \<open>Python string operations\<close>

text \<open>
  A string is the list of the bytes of its UTF-8 encoding, so a code point beyond ASCII
  is several characters of 128 and more. \<^verbatim>\<open>str.lower\<close> on a string of ASCII
  characters maps the letters A to Z and keeps the rest; on any other string it is the
  interpreter's Unicode case mapping, which lower-cases further letters (the Kelvin
  sign U+212A becomes \<^verbatim>\<open>k\<close>) and is taken as a parameter, \<open>unicode_lower\<close>.
  \<^verbatim>\<open>urllib.parse.quote\<close> with its default \<^verbatim>\<open>safe='/'\<close>: letters, digits and
  \<^verbatim>\<open>_.-~/\<close> are kept, every other byte becomes \<^verbatim>\<open>%XX\<close> in upper-case
  hexadecimal.
\<close>

definition lower_char :: "char \<Rightarrow> char" where
  "lower_char c =
     (case map_of (zip ''ABCDEFGHIJKLMNOPQRSTUVWXYZ'' ''abcdefghijklmnopqrstuvwxyz'') c of
        Some l \<Rightarrow> l | None \<Rightarrow> c)"

definition is_ascii :: "string \<Rightarrow> bool" where
  "is_ascii s \<longleftrightarrow> (\<forall>c\<in>set s. (of_char c :: nat) < 128)"

definition lower :: "(string \<Rightarrow> string) \<Rightarrow> string \<Rightarrow> string" where
  "lower unicode_lower s = (if is_ascii s then map lower_char s else unicode_lower s)"

definition hex_digit :: "nat \<Rightarrow> char" where
  "hex_digit n = ''0123456789ABCDEF'' ! n"

definition always_safe :: "char \<Rightarrow> bool" where
  "always_safe c \<longleftrightarrow>
     c \<in> set ''ABCDEFGHIJKLMNOPQRSTUVWXYZabcdefghijklmnopqrstuvwxyz0123456789_.-~''"

definition quote_char :: "char \<Rightarrow> string" where
  "quote_char c =
     (if always_safe c \<or> c = CHR ''/'' then [c]
      else [CHR ''%'', hex_digit (of_char c div 16), hex_digit (of_char c mod 16)])"

definition quote :: "string \<Rightarrow> string" where
  "quote s = concat (map quote_char s)"

text \<open>\<^verbatim>\<open>sep.join(xs)\<close> and \<^verbatim>\<open>s.startswith(p)\<close>.\<close>

fun join :: "string \<Rightarrow> string list \<Rightarrow> string" where
  "join sep [] = []"
| "join sep [x] = x"
| "join sep (x # y # ys) = x @ sep @ join sep (y # ys)"

definition startswith :: "string \<Rightarrow> string \<Rightarrow> bool" where
  "startswith s p \<longleftrightarrow> take (length p) s = p"

text \<open>Truth value of an optional string: \<^verbatim>\<open>None\<close> and \<^verbatim>\<open>''\<close> are false.\<close>

definition truthy :: "string option \<Rightarrow> bool" where
  "truthy v = (case v of None \<Rightarrow> False | Some s \<Rightarrow> s \<noteq> [])"

section \<open>Music Recommender\<close>

definition get_mood_search_query :: "string \<Rightarrow> string" where
  "get_mood_search_query mood =
     (case map_of
        [(''Happy'', ''happy upbeat pop dance bollywood energetic''),
         (''Sad'', ''sad melancholic acoustic emotional hindi heartbreak''),
         (''Angry'', ''angry rock metal aggressive rap hindi''),
         (''Fear'', ''ambient dark atmospheric calm soothing''),
         (''Surprise'', ''electronic experimental pop energetic dance''),
         (''Disgust'', ''rock alternative metal angry''),
         (''Neutral'', ''pop indie chill relaxed'')] mood
      of Some q \<Rightarrow> q | None \<Rightarrow> ''pop music'')"

text \<open>The body of the loop that builds \<^verbatim>\<open>track_info\<close> from a catalog track.\<close>

definition project_track :: "raw_track \<Rightarrow> track_info" where
  "project_track track =
     \<lparr> track_id = raw_id track,
       track_name = Some (raw_name track),
       artist = Some (case artists track of [] \<Rightarrow> ''Unknown Artist'' | a # _ \<Rightarrow> a),
       album_title = album_name (album track),
       image_url =
         (case images (album track) of
            [] \<Rightarrow> None
          | [i0] \<Rightarrow> Some i0
          | i0 # i1 # _ \<Rightarrow> Some i1),
       preview_url = raw_preview_url track,
       spotify_url = external_url track,
       duration_ms = raw_duration_ms track,
       popularity = raw_popularity track \<rparr>"

text \<open>
  The \<^verbatim>\<open>for track in results['tracks']['items']\<close> loop, with its two accumulators
  \<^verbatim>\<open>tracks\<close> and \<^verbatim>\<open>seen_track_ids\<close>. The test \<^verbatim>\<open>len(tracks) >= limit\<close> comes
  after the append, as in the source.
\<close>

fun search_loop ::
  "int \<Rightarrow> raw_track option list \<Rightarrow> track_info list \<Rightarrow> string option set \<Rightarrow> track_info list"
where
  "search_loop limit [] tracks seen_track_ids = tracks"
| "search_loop limit (None # items) tracks seen_track_ids =
     search_loop limit items tracks seen_track_ids"
| "search_loop limit (Some track # items) tracks seen_track_ids =
     (if raw_id track \<in> seen_track_ids then search_loop limit items tracks seen_track_ids
      else
        let tracks' = tracks @ [project_track track];
            seen' = insert (raw_id track) seen_track_ids
        in if limit \<le> int (length tracks') then tracks'
           else search_loop limit items tracks' seen')"

text \<open>\<^verbatim>\<open>os.getenv("SPOTIFY_MARKET", "US")\<close>.\<close>

definition market :: "env \<Rightarrow> string" where
  "market e = (case SPOTIFY_MARKET e of None \<Rightarrow> ''US'' | Some m \<Rightarrow> m)"

definition search_spotify_by_mood :: "env \<Rightarrow> string \<Rightarrow> int \<Rightarrow> track_info list" where
  "search_spotify_by_mood e mood limit =
     (case spotify_client e of
        None \<Rightarrow> []
      | Some client \<Rightarrow>
          (case client (get_mood_search_query mood) (min (limit * 2) 50) (market e) of
             Inl ex \<Rightarrow> []
           | Inr items \<Rightarrow> search_loop limit items [] {}))"

text \<open>
  The specification's words for the result: the non-null entries, deduplicated by id
  with the first occurrence winning and the order kept.
\<close>

fun first_seen :: "('a \<Rightarrow> 'k) \<Rightarrow> 'k set \<Rightarrow> 'a list \<Rightarrow> 'a list" where
  "first_seen key seen [] = []"
| "first_seen key seen (x # xs) =
     (if key x \<in> seen then first_seen key seen xs
      else x # first_seen key (insert (key x) seen) xs)"

definition non_null :: "'a option list \<Rightarrow> 'a list" where
  "non_null items = map the (filter (\<lambda>t. t \<noteq> None) items)"

section \<open>Playlist Manager\<close>

subsection \<open>The fallback URL generator\<close>

text \<open>
  \<^verbatim>\<open>create_spotify_playlist_url(tracks, mood=None)\<close>, with the interpreter's
  \<^verbatim>\<open>str.lower\<close> as first argument. The guard on an empty track list comes first;
  the two blocks that collect \<^verbatim>\<open>track_names\<close> from \<^verbatim>\<open>tracks[:5]\<close> are the same
  comprehension, so it is written once.
\<close>

definition track_names_of :: "track_info list \<Rightarrow> string list" where
  "track_names_of tracks =
     map (\<lambda>t. the (track_name t) @ '' '' @ the (artist t))
       (filter (\<lambda>t. truthy (track_name t) \<and> truthy (artist t)) (take 5 tracks))"

definition create_spotify_playlist_url ::
  "(string \<Rightarrow> string) \<Rightarrow> track_info list \<Rightarrow> string option \<Rightarrow> string option"
where
  "create_spotify_playlist_url unicode_lower tracks mood =
     (if tracks = [] then None
      else
        let track_ids = map (\<lambda>t. the (track_id t)) (filter (\<lambda>t. truthy (track_id t)) tracks);
            track_names = track_names_of tracks
        in if track_ids \<noteq> [] \<and> track_names \<noteq> [] then
             Some (''https://open.spotify.com/search/'' @
                   quote ((if truthy mood then the mood @ '' '' else []) @ join '' '' track_names))
           else if track_names \<noteq> [] then
             Some (''https://open.spotify.com/search/'' @
                   quote ((if truthy mood then the mood @ '' mood '' else []) @ join '' '' track_names))
           else
             Some (''https://open.spotify.com/search/'' @
                   (if truthy mood then lower unicode_lower (the mood) else ''mood'') @
                   ''%20music''))"

subsection \<open>The authenticated client\<close>

text \<open>
  \<^verbatim>\<open>get_authenticated_spotify_client()\<close>: \<^verbatim>\<open>None\<close> without OAuth configuration,
  without a cached token, when reading the token raises, or when the token test
  \<^verbatim>\<open>sp.current_user()\<close> raises. The result says whether a client was obtained.
\<close>

definition get_authenticated_spotify_client :: "env \<Rightarrow> state \<Rightarrow> bool \<times> state" where
  "get_authenticated_spotify_client e s =
     (if \<not> spotify_oauth e then (False, s)
      else
        case get_cached_token e of
          Inl ex \<Rightarrow> (False, s)
        | Inr None \<Rightarrow> (False, s)
        | Inr (Some token) \<Rightarrow>
            (case current_user_check e of
               Inl ex \<Rightarrow> (False, log_call CurrentUser s)
             | Inr u \<Rightarrow> (True, log_call CurrentUser s)))"

subsection \<open>Playlist creation\<close>

text \<open>The loop collecting \<^verbatim>\<open>track_uris\<close> from \<^verbatim>\<open>tracks[:50]\<close> without repetition.\<close>

fun collect_uris :: "track_info list \<Rightarrow> string list \<Rightarrow> string set \<Rightarrow> string list" where
  "collect_uris [] track_uris seen_uris = track_uris"
| "collect_uris (t # ts) track_uris seen_uris =
     (if truthy (track_id t) then
        let track_uri = ''spotify:track:'' @ the (track_id t)
        in if track_uri \<notin> seen_uris
           then collect_uris ts (track_uris @ [track_uri]) (insert track_uri seen_uris)
           else collect_uris ts track_uris seen_uris
      else collect_uris ts track_uris seen_uris)"

text \<open>
  \<^verbatim>\<open>create_actual_spotify_playlist(tracks, mood)\<close>. Every exception is caught by the
  function's own handler, which returns \<^verbatim>\<open>None\<close>; the calls made before the
  exception stay in the trace.
\<close>

definition create_actual_spotify_playlist ::
  "env \<Rightarrow> track_info list \<Rightarrow> string \<Rightarrow> state \<Rightarrow> string option \<times> state"
where
  "create_actual_spotify_playlist e tracks mood s =
     (if tracks = [] then (None, s)
      else
        case created_playlists s mood of
          Some url \<Rightarrow> (Some url, s)
        | None \<Rightarrow>
            (case get_authenticated_spotify_client e s of
               (False, s1) \<Rightarrow> (None, s1)
             | (True, s1) \<Rightarrow>
                 let s2 = log_call CurrentUser s1 in
                 (case current_user e of
                    Inl ex \<Rightarrow> (None, s2)
                  | Inr user_id \<Rightarrow>
                      let playlist_name = ''kaguya '' @ lower (str_lower e) mood @ '' mood'';
                          playlist_description =
                            ''curated '' @ lower (str_lower e) mood @
                            '' playlist generated by kaguya ai mood detection'';
                          s3 = log_call
                                 (UserPlaylistCreate user_id playlist_name playlist_description) s2
                      in
                      (case user_playlist_create e user_id playlist_name playlist_description of
                         Inl ex \<Rightarrow> (None, s3)
                       | Inr playlist \<Rightarrow>
                           let track_uris = collect_uris (take 50 tracks) [] {};
                               s4 = (if track_uris \<noteq> []
                                     then log_call
                                            (PlaylistAddItems (playlist_id playlist) track_uris) s3
                                     else s3)
                           in
                           (case (if track_uris \<noteq> []
                                  then playlist_add_items e (playlist_id playlist) track_uris
                                  else Inr ()) of
                              Inl ex \<Rightarrow> (None, s4)
                            | Inr u \<Rightarrow>
                                (Some (playlist_url playlist),
                                 s4\<lparr>created_playlists :=
                                      (created_playlists s4)(mood \<mapsto> playlist_url playlist)\<rparr>))))))"

subsection \<open>The playlist endpoint\<close>

record playlist_response =
  resp_mood :: string
  resp_playlist_url :: "string option"
  resp_tracks :: "track_info list"

text \<open>
  \<^verbatim>\<open>GET /playlist/{mood}\<close>. The three \<^verbatim>\<open>HTTPException\<close>s are raised in the
  source's order: client missing, mood unknown, no tracks.
\<close>

definition get_playlist_by_mood ::
  "env \<Rightarrow> string \<Rightarrow> int \<Rightarrow> state \<Rightarrow> (http_exception + playlist_response) \<times> state"
where
  "get_playlist_by_mood e mood limit s =
     (if spotify_client e = None then (Inl (HTTPException 503), s)
      else if mood \<notin> set MOOD_LABELS_values then (Inl (HTTPException 400), s)
      else
        let tracks = search_spotify_by_mood e mood limit
        in if tracks = [] then (Inl (HTTPException 404), s)
           else
             case create_actual_spotify_playlist e tracks mood s of
               (url, s') \<Rightarrow>
                 (Inr \<lparr>resp_mood = mood, resp_playlist_url = url, resp_tracks = tracks\<rparr>, s'))"

subsection \<open>Cleanup\<close>

text \<open>
  The \<^verbatim>\<open>while True\<close> loop that pages through the user's playlists, 50 at a time. It
  ends at the first page shorter than 50 or at the first exception, and does not end
  if the service keeps answering with full pages: the value \<^term>\<open>None\<close>.
\<close>

partial_function (option) fetch_playlists ::
  "env \<Rightarrow> nat \<Rightarrow> playlist_obj list \<Rightarrow> state \<Rightarrow> ((py_exception + playlist_obj list) \<times> state) option"
where
  "fetch_playlists e offset playlists s =
     (case current_user_playlists e 50 offset of
        Inl ex \<Rightarrow> Some (Inl ex, log_call (CurrentUserPlaylists 50 offset) s)
      | Inr items \<Rightarrow>
          if length items < 50
          then Some (Inr (playlists @ items), log_call (CurrentUserPlaylists 50 offset) s)
          else fetch_playlists e (offset + 50) (playlists @ items)
                 (log_call (CurrentUserPlaylists 50 offset) s))"

text \<open>The filter \<^verbatim>\<open>playlist['name'].lower().startswith('kaguya')\<close>.\<close>

definition is_kaguya :: "(string \<Rightarrow> string) \<Rightarrow> playlist_obj \<Rightarrow> bool" where
  "is_kaguya unicode_lower playlist \<longleftrightarrow>
     startswith (lower unicode_lower (playlist_name playlist)) ''kaguya''"

text \<open>
  The deletion loop: a playlist whose \<^verbatim>\<open>user_playlist_unfollow\<close> raises is logged
  and left out of \<^verbatim>\<open>deleted_playlists\<close>, and the loop goes on.
\<close>

fun delete_loop ::
  "env \<Rightarrow> string \<Rightarrow> playlist_obj list \<Rightarrow> playlist_obj list \<Rightarrow> state \<Rightarrow> playlist_obj list \<times> state"
where
  "delete_loop e user_id [] deleted_playlists s = (deleted_playlists, s)"
| "delete_loop e user_id (playlist # rest) deleted_playlists s =
     (case user_playlist_unfollow e user_id (playlist_id playlist) of
        Inl ex \<Rightarrow>
          delete_loop e user_id rest deleted_playlists
            (log_call (UserPlaylistUnfollow user_id (playlist_id playlist)) s)
      | Inr u \<Rightarrow>
          delete_loop e user_id rest (deleted_playlists @ [playlist])
            (log_call (UserPlaylistUnfollow user_id (playlist_id playlist)) s))"

text \<open>
  The cleanup reply; \<^verbatim>\<open>message\<close>, a text made from the count, is left out.
\<close>

record cleanup_response =
  status :: string
  deleted_count :: nat
  deleted_playlists :: "playlist_obj list"

definition cleanup_kaguya_playlists ::
  "env \<Rightarrow> state \<Rightarrow> ((http_exception + cleanup_response) \<times> state) option"
where
  "cleanup_kaguya_playlists e s =
     (case get_authenticated_spotify_client e s of
        (False, s1) \<Rightarrow> Some (Inl (HTTPException 503), s1)
      | (True, s1) \<Rightarrow>
          (case current_user e of
             Inl ex \<Rightarrow> Some (Inl (HTTPException 500), log_call CurrentUser s1)
           | Inr user_id \<Rightarrow>
               (case fetch_playlists e 0 [] (log_call CurrentUser s1) of
                  None \<Rightarrow> None
                | Some (Inl ex, s3) \<Rightarrow> Some (Inl (HTTPException 500), s3)
                | Some (Inr playlists, s3) \<Rightarrow>
                    let kaguya_playlists = filter (is_kaguya (str_lower e)) playlists
                    in if kaguya_playlists = [] then
                         Some (Inr \<lparr>status = ''success'', deleted_count = 0,
                                    deleted_playlists = []\<rparr>, s3)
                       else
                         case delete_loop e user_id kaguya_playlists [] s3 of
                           (deleted, s4) \<Rightarrow>
                             Some (Inr \<lparr>status = ''success'',
                                        deleted_count = length deleted,
                                        deleted_playlists = deleted\<rparr>,
                                   s4\<lparr>created_playlists := Map.empty\<rparr>))))"

section \<open>Face Extractor and Mood Classifier\<close>

text \<open>
  A face region is the detector's \<^verbatim>\<open>(x, y, w, h)\<close>. The image type is a parameter.
  \<^verbatim>\<open>face_cascade\<close> and \<^verbatim>\<open>mood_model\<close> are \<^verbatim>\<open>None\<close> until loaded; the first
  stands for grey conversion followed by \<^verbatim>\<open>detectMultiScale\<close>, the second for the
  crop, resize, scaling and \<^verbatim>\<open>predict\<close>, giving \<^verbatim>\<open>predictions[0]\<close>.
\<close>

text \<open>
  A region lies inside the decoded image, so for images of fewer than \<open>2^31\<close> pixels
  the product of the detector's 32-bit width and height does not wrap; coordinates and
  areas are integers here.
\<close>

type_synonym face = "int \<times> int \<times> int \<times> int"

record 'img vision =
  mood_model :: "('img \<Rightarrow> face \<Rightarrow> py_exception + real list) option"
  face_cascade :: "('img \<Rightarrow> py_exception + face list) option"
  decode_image :: "string \<Rightarrow> py_exception + 'img"

text \<open>
  \<^verbatim>\<open>base64_to_image\<close>: stripping the data-URL prefix, decoding and conversion are the
  field \<open>decode_image\<close>; any exception becomes \<^verbatim>\<open>HTTPException(400)\<close>.
\<close>

definition base64_to_image :: "'img vision \<Rightarrow> string \<Rightarrow> http_exception + 'img" where
  "base64_to_image v base64_string =
     (case decode_image v base64_string of
        Inl ex \<Rightarrow> Inl (HTTPException 400)
      | Inr image_array \<Rightarrow> Inr image_array)"

text \<open>The key \<^verbatim>\<open>lambda face: face[2] * face[3]\<close>.\<close>

fun face_area :: "face \<Rightarrow> int" where
  "face_area (x, y, w, h) = w * h"

text \<open>
  Python's \<^verbatim>\<open>max(xs, key=k)\<close> on a non-empty sequence: the running maximum is
  replaced only by a strictly larger key.
\<close>

fun max_by :: "('a \<Rightarrow> int) \<Rightarrow> 'a \<Rightarrow> 'a list \<Rightarrow> 'a" where
  "max_by key best [] = best"
| "max_by key best (x # xs) = max_by key (if key best < key x then x else best) xs"

text \<open>\<^verbatim>\<open>np.argmax\<close> (first index of the maximum) and \<^verbatim>\<open>np.max\<close>.\<close>

fun argmax_loop :: "nat \<Rightarrow> nat \<Rightarrow> real \<Rightarrow> real list \<Rightarrow> nat" where
  "argmax_loop i best_i best [] = best_i"
| "argmax_loop i best_i best (p # ps) =
     (if best < p then argmax_loop (Suc i) i p ps else argmax_loop (Suc i) best_i best ps)"

definition mood_label :: "nat \<Rightarrow> string" where
  "mood_label mood_index =
     (case map_of MOOD_LABELS mood_index of Some l \<Rightarrow> l | None \<Rightarrow> ''Unknown'')"

definition detect_mood_from_image :: "'img vision \<Rightarrow> 'img \<Rightarrow> string option \<times> real" where
  "detect_mood_from_image v image_array =
     (case mood_model v of
        None \<Rightarrow> (None, 0)
      | Some model \<Rightarrow>
          (case face_cascade v of
             None \<Rightarrow> (None, 0)
           | Some cascade \<Rightarrow>
               (case cascade image_array of
                  Inl ex \<Rightarrow> (None, 0)
                | Inr [] \<Rightarrow> (None, 0)
                | Inr (f # fs) \<Rightarrow>
                    (case model image_array (max_by face_area f fs) of
                       Inl ex \<Rightarrow> (None, 0)
                     | Inr [] \<Rightarrow> (None, 0)
                     | Inr (p # ps) \<Rightarrow>
                         (Some (mood_label (argmax_loop 1 0 p ps)), fold max ps p)))))"

section \<open>Request and stream gateway\<close>

subsection \<open>The combined endpoint\<close>

record mood_detection_response =
  det_mood :: string
  det_confidence :: real
  det_playlist_url :: "string option"
  det_recommendations :: "track_info list"

definition detect_mood_and_get_playlist ::
  "'img vision \<Rightarrow> env \<Rightarrow> string \<Rightarrow> int \<Rightarrow> state \<Rightarrow>
     (http_exception + mood_detection_response) \<times> state"
where
  "detect_mood_and_get_playlist v e image_base64 limit s =
     (if mood_model v = None \<or> face_cascade v = None then (Inl (HTTPException 503), s)
      else if spotify_client e = None then (Inl (HTTPException 503), s)
      else
        case base64_to_image v image_base64 of
          Inl ex \<Rightarrow> (Inl ex, s)
        | Inr image_array \<Rightarrow>
            (case detect_mood_from_image v image_array of
               (None, confidence) \<Rightarrow> (Inl (HTTPException 400), s)
             | (Some mood, confidence) \<Rightarrow>
                 let tracks = search_spotify_by_mood e mood limit
                 in case (if tracks \<noteq> [] then create_actual_spotify_playlist e tracks mood s
                          else (None, s)) of
                      (url, s') \<Rightarrow>
                        (Inr \<lparr>det_mood = mood, det_confidence = confidence,
                              det_playlist_url = url, det_recommendations = tracks\<rparr>, s')))"

subsection \<open>The streaming endpoint\<close>

text \<open>
  What \<^verbatim>\<open>receive_json\<close> hands to the loop is any JSON value, not only an object: a
  parsed object is the list of its items, read with \<^term>\<open>map_of\<close>.
\<close>

datatype json =
    JNull
  | JBool bool
  | JNumber real
  | JString string
  | JArray "json list"
  | JObject "(string \<times> json) list"

text \<open>
  What arrives on a connection: a message that parses as JSON, a frame at which
  \<^verbatim>\<open>receive_json\<close> raises because it is not JSON text, or the client's disconnect,
  at which it raises \<^verbatim>\<open>WebSocketDisconnect\<close>. Sending to a connected client
  succeeds.
\<close>

datatype inbound = Message json | NotJson | Disconnect

text \<open>
  How the handler ends on the input so far: still waiting for a message, left through
  the handler for \<^verbatim>\<open>WebSocketDisconnect\<close>, or ended by an exception that nothing
  catches.
\<close>

datatype connection = Connected | Disconnected | Failed

datatype ws_reply =
    ErrorReply string
  | MoodReply "string option" real json "track_info list option"

text \<open>
  Python's \<^verbatim>\<open>"image" in data\<close>: a key of a dict, an element of a list, a
  substring of a string, and a \<^verbatim>\<open>TypeError\<close> on null, a boolean or a number.
\<close>

definition contains_str :: "string \<Rightarrow> string \<Rightarrow> bool" where
  "contains_str s p \<longleftrightarrow>
     list_ex (\<lambda>i. take (length p) (drop i s) = p) [0..<Suc (length s)]"

fun py_in :: "string \<Rightarrow> json \<Rightarrow> py_exception + bool" where
  "py_in k (JObject items) = Inr (k \<in> fst ` set items)"
| "py_in k (JArray xs) = Inr (JString k \<in> set xs)"
| "py_in k (JString s) = Inr (contains_str s k)"
| "py_in k JNull = Inl PyException"
| "py_in k (JBool b) = Inl PyException"
| "py_in k (JNumber x) = Inl PyException"

text \<open>
  \<^verbatim>\<open>data[k]\<close> with a string key, which raises on everything but a dict that has the
  key, and \<^verbatim>\<open>data.get(k, default)\<close> on a dict.
\<close>

fun py_getitem :: "json \<Rightarrow> string \<Rightarrow> py_exception + json" where
  "py_getitem (JObject items) k =
     (case map_of items k of None \<Rightarrow> Inl PyException | Some x \<Rightarrow> Inr x)"
| "py_getitem data k = Inl PyException"

fun py_get :: "json \<Rightarrow> string \<Rightarrow> json \<Rightarrow> py_exception + json" where
  "py_get (JObject items) k d =
     (case map_of items k of None \<Rightarrow> Inr d | Some x \<Rightarrow> Inr x)"
| "py_get data k d = Inl PyException"

text \<open>The truth value of a JSON value in a condition.\<close>

fun json_truthy :: "json \<Rightarrow> bool" where
  "json_truthy JNull = False"
| "json_truthy (JBool b) = b"
| "json_truthy (JNumber x) = (x \<noteq> 0)"
| "json_truthy (JString s) = (s \<noteq> [])"
| "json_truthy (JArray xs) = (xs \<noteq> [])"
| "json_truthy (JObject items) = (items \<noteq> [])"

text \<open>
  The inner \<^verbatim>\<open>try\<close> block of the loop; an exception anywhere in it is answered with
  the second error reply. \<^verbatim>\<open>base64_to_image\<close> raises on a value that is not a
  string.
\<close>

definition process_frame :: "'img vision \<Rightarrow> env \<Rightarrow> json \<Rightarrow> ws_reply" where
  "process_frame v e data =
     (case py_getitem data ''image'' of
        Inl ex \<Rightarrow> ErrorReply ''Failed to process frame''
      | Inr image_value \<Rightarrow>
          (case (case image_value of JString b64 \<Rightarrow> base64_to_image v b64
                              | _ \<Rightarrow> Inl (HTTPException 400)) of
             Inl ex \<Rightarrow> ErrorReply ''Failed to process frame''
           | Inr image_array \<Rightarrow>
               (case detect_mood_from_image v image_array of
                  (mood, confidence) \<Rightarrow>
                    (case py_get data ''timestamp'' JNull of
                       Inl ex \<Rightarrow> ErrorReply ''Failed to process frame''
                     | Inr timestamp \<Rightarrow>
                         (case (if truthy mood then py_get data ''include_playlist'' (JBool False)
                                else Inr (JBool False)) of
                            Inl ex \<Rightarrow> ErrorReply ''Failed to process frame''
                          | Inr include_playlist \<Rightarrow>
                              MoodReply mood confidence timestamp
                                (if truthy mood \<and> json_truthy include_playlist
                                 then Some (take 5 (search_spotify_by_mood e (the mood) 10))
                                 else None))))))"

text \<open>
  \<^verbatim>\<open>websocket_video_mood\<close>: the replies sent, in order, and how the handler stands
  when the input so far has been consumed. The test \<^verbatim>\<open>"image" not in data\<close> stands
  before the inner \<^verbatim>\<open>try\<close>, and the loop is guarded only by
  \<^verbatim>\<open>except WebSocketDisconnect\<close>: an exception of the test, or of
  \<^verbatim>\<open>receive_json\<close>, ends the handler.
\<close>

fun websocket_video_mood ::
  "'img vision \<Rightarrow> env \<Rightarrow> inbound list \<Rightarrow> ws_reply list \<times> connection"
where
  "websocket_video_mood v e [] = ([], Connected)"
| "websocket_video_mood v e (Disconnect # rest) = ([], Disconnected)"
| "websocket_video_mood v e (NotJson # rest) = ([], Failed)"
| "websocket_video_mood v e (Message data # rest) =
     (case py_in ''image'' data of
        Inl ex \<Rightarrow> ([], Failed)
      | Inr False \<Rightarrow>
          (case websocket_video_mood v e rest of
             (replies, c) \<Rightarrow> (ErrorReply ''No image data provided'' # replies, c))
      | Inr True \<Rightarrow>
          (case websocket_video_mood v e rest of
             (replies, c) \<Rightarrow> (process_frame v e data # replies, c)))"

subsection \<open>Operations on the process state\<close>

text \<open>
  The operations of the service that the claims speak of, and the state each leaves.
  The search, the fallback URL generator, the detection and the streaming loop take
  no state in the source and return none. Cleanup has no state to return when its
  paging loop does not end.
\<close>

datatype 'img operation =
    OpSearch string int
  | OpFallbackUrl "track_info list" "string option"
  | OpDetect 'img
  | OpVideoMood "inbound list"
  | OpCreatePlaylist "track_info list" string
  | OpPlaylistEndpoint string int
  | OpMoodAndPlaylist string int
  | OpCleanup

fun run_operation :: "'img vision \<Rightarrow> env \<Rightarrow> 'img operation \<Rightarrow> state \<Rightarrow> state option" where
  "run_operation v e (OpSearch mood limit) s =
     (case search_spotify_by_mood e mood limit of tracks \<Rightarrow> Some s)"
| "run_operation v e (OpFallbackUrl tracks mood) s =
     (case create_spotify_playlist_url (str_lower e) tracks mood of url \<Rightarrow> Some s)"
| "run_operation v e (OpDetect image_array) s =
     (case detect_mood_from_image v image_array of r \<Rightarrow> Some s)"
| "run_operation v e (OpVideoMood msgs) s =
     (case websocket_video_mood v e msgs of r \<Rightarrow> Some s)"
| "run_operation v e (OpCreatePlaylist tracks mood) s =
     Some (snd (create_actual_spotify_playlist e tracks mood s))"
| "run_operation v e (OpPlaylistEndpoint mood limit) s =
     Some (snd (get_playlist_by_mood e mood limit s))"
| "run_operation v e (OpMoodAndPlaylist image_base64 limit) s =
     Some (snd (detect_mood_and_get_playlist v e image_base64 limit s))"
| "run_operation v e OpCleanup s = map_option snd (cleanup_kaguya_playlists e s)"

section \<open>Notions of the specification\<close>

text \<open>
  Authenticated mode in the specification's words: a cached token is present and the
  identity check accepts it.
\<close>

definition token_accepted :: "env \<Rightarrow> bool" where
  "token_accepted e \<longleftrightarrow>
     spotify_oauth e \<and>
     (case get_cached_token e of Inr (Some token) \<Rightarrow> True | _ \<Rightarrow> False) \<and>
     (case current_user_check e of Inr u \<Rightarrow> True | Inl ex \<Rightarrow> False)"

text \<open>The number of external playlist-creation calls made so far.\<close>

fun is_creation_call :: "api_call \<Rightarrow> bool" where
  "is_creation_call (UserPlaylistCreate u n d) = True"
| "is_creation_call c = False"

definition creation_calls :: "state \<Rightarrow> nat" where
  "creation_calls s = length (filter is_creation_call (api_calls s))"

text \<open>The operations that reach \<^verbatim>\<open>create_actual_spotify_playlist\<close>.\<close>

fun is_playlist_request :: "'img operation \<Rightarrow> bool" where
  "is_playlist_request (OpCreatePlaylist tracks mood) = True"
| "is_playlist_request (OpPlaylistEndpoint mood limit) = True"
| "is_playlist_request (OpMoodAndPlaylist image_base64 limit) = True"
| "is_playlist_request op = False"

section \<open>Concrete inputs\<close>

text \<open>Small tracks, playlists and environments on which the theorems are run.\<close>

definition example_track :: "string \<Rightarrow> raw_track" where
  "example_track i =
     \<lparr> raw_id = Some i, raw_name = ''Song '' @ i, artists = [''Band''],
       album = \<lparr>album_name = ''Album'', images = []\<rparr>,
       raw_preview_url = None, external_url = ''https://open.spotify.com/track/'' @ i,
       raw_duration_ms = 1000, raw_popularity = 50 \<rparr>"

definition example_playlist :: "string \<Rightarrow> string \<Rightarrow> playlist_obj" where
  "example_playlist i n =
     \<lparr> playlist_id = i, playlist_name = n,
       playlist_url = ''https://open.spotify.com/playlist/'' @ i \<rparr>"

text \<open>
  A lower-casing that knows one letter beyond ASCII, the Kelvin sign, whose UTF-8
  encoding is the three bytes E2 84 AA.
\<close>

fun example_str_lower :: "string \<Rightarrow> string" where
  "example_str_lower (a # b # c # rest) =
     (if a = CHR 0xE2 \<and> b = CHR 0x84 \<and> c = CHR 0xAA then CHR ''k'' # example_str_lower rest
      else lower_char a # example_str_lower (b # c # rest))"
| "example_str_lower s = map lower_char s"

text \<open>
  A service in authenticated mode: the catalog answers every search with \<open>items\<close>, the
  token is cached and accepted, a created playlist gets the id \<^verbatim>\<open>p1\<close>, the user
  owns the playlists \<open>owned\<close>, served in pages, and unfollowing fails for the ids in
  \<open>failing\<close>.
\<close>

definition example_env :: "raw_track option list \<Rightarrow> playlist_obj list \<Rightarrow> string list \<Rightarrow> env" where
  "example_env items owned failing =
     \<lparr> spotify_client = Some (\<lambda>q l m. Inr items),
       SPOTIFY_MARKET = None,
       spotify_oauth = True,
       get_cached_token = Inr (Some ''token''),
       current_user_check = Inr (),
       current_user = Inr ''me'',
       user_playlist_create = (\<lambda>u n d. Inr (example_playlist ''p1'' n)),
       playlist_add_items = (\<lambda>p uris. Inr ()),
       current_user_playlists = (\<lambda>l off. Inr (take l (drop off owned))),
       user_playlist_unfollow =
         (\<lambda>u p. if p \<in> set failing then Inl PyException else Inr ()),
       str_lower = example_str_lower \<rparr>"

definition empty_state :: state where
  "empty_state = \<lparr>created_playlists = Map.empty, api_calls = []\<rparr>"

text \<open>
  One track as the search returns it, the state after a playlist for \<^verbatim>\<open>Happy\<close> has
  been created from it in \<open>example_env\<close>, and the same service without OAuth
  configuration.
\<close>

definition example_tracks :: "track_info list" where
  "example_tracks = [project_track (example_track ''a'')]"

definition example_created_state :: state where
  "example_created_state =
     \<lparr> created_playlists = [''Happy'' \<mapsto> ''https://open.spotify.com/playlist/p1''],
       api_calls =
         [CurrentUser, CurrentUser,
          UserPlaylistCreate ''me'' ''kaguya happy mood''
            ''curated happy playlist generated by kaguya ai mood detection'',
          PlaylistAddItems ''p1'' [''spotify:track:a'']] \<rparr>"

definition unauthenticated_env :: env where
  "unauthenticated_env = (example_env [Some (example_track ''a'')] [] [])\<lparr>spotify_oauth := False\<rparr>"

text \<open>
  The playlists of a user: four whose names start with the brand prefix in some letter
  case, the last of them with the Kelvin sign for its first letter, and two that do
  not.
\<close>

definition kelvin_name :: string where
  "kelvin_name = [CHR 0xE2, CHR 0x84, CHR 0xAA] @ ''aguya chill''"

definition example_owned :: "playlist_obj list" where
  "example_owned =
     [example_playlist ''1'' ''kaguya happy mood'',
      example_playlist ''2'' ''Road trip'',
      example_playlist ''3'' ''KAGUYA sad mood'',
      example_playlist ''4'' ''Kaguya Angry Mood'',
      example_playlist ''5'' ''not kaguya'',
      example_playlist ''6'' kelvin_name]"

text \<open>
  The service of \<open>example_env\<close> with one call failing: adding the tracks to the new
  playlist, or creating the playlist.
\<close>

definition add_items_failing_env :: env where
  "add_items_failing_env =
     (example_env [] [] [])\<lparr>playlist_add_items := (\<lambda>p uris. Inl PyException)\<rparr>"

definition create_failing_env :: env where
  "create_failing_env =
     (example_env [] [] [])\<lparr>user_playlist_create := (\<lambda>u n d. Inl PyException)\<rparr>"

text \<open>Two frames of the streaming client, with and without an image.\<close>

definition example_frame :: "string \<Rightarrow> json" where
  "example_frame t =
     JObject [(''image'', JString ''abc''), (''timestamp'', JString t)]"

definition example_frame_without_image :: json where
  "example_frame_without_image =
     JObject [(''timestamp'', JString ''t1''), (''include_playlist'', JBool True)]"

text \<open>
  A loaded detector and classifier over images that are numbers: the detector finds
  \<open>faces\<close> in every image, the classifier answers with the same probabilities for
  every face, and every string decodes to the image 0.
\<close>

definition example_vision :: "face list \<Rightarrow> nat vision" where
  "example_vision faces =
     \<lparr> mood_model = Some (\<lambda>img f. Inr [1 / 4, 1 / 2, 1 / 4]),
       face_cascade = Some (\<lambda>img. Inr faces),
       decode_image = (\<lambda>b64. Inr 0) \<rparr>"

section \<open>Properties of the Music Recommender\<close>

lemma non_null_simps:
  "non_null [] = []"
  "non_null (None # items) = non_null items"
  "non_null (Some t # items) = t # non_null items"
  by (simp_all add: non_null_def)

lemma first_seen_keys_fresh:
  "key ` set (first_seen key seen xs) \<inter> seen = {}"
  by (induction xs arbitrary: seen) auto

lemma first_seen_distinct: "distinct (map key (first_seen key seen xs))"
proof (induction xs arbitrary: seen)
  case Nil
  show ?case by simp
next
  case (Cons x xs)
  have "key x \<notin> key ` set (first_seen key (insert (key x) seen) xs)"
    using first_seen_keys_fresh [of key "insert (key x) seen" xs] by auto
  with Cons show ?case by simp
qed

lemma first_seen_subseq: "subseq (first_seen key seen xs) xs"
  by (induction xs arbitrary: seen) auto

lemma first_seen_keys:
  "key ` set (first_seen key seen xs) = key ` set xs - seen"
  by (induction xs arbitrary: seen) auto

lemma search_loop_eq:
  "int (length tracks) < limit \<Longrightarrow>
   search_loop limit items tracks seen =
     tracks @ take (nat limit - length tracks)
                (map project_track (first_seen raw_id seen (non_null items)))"
proof (induction items arbitrary: tracks seen)
  case Nil
  show ?case by (simp add: non_null_simps)
next
  case (Cons it items)
  show ?case
  proof (cases it)
    case None
    with Cons show ?thesis by (simp add: non_null_simps)
  next
    case (Some track)
    show ?thesis
    proof (cases "raw_id track \<in> seen")
      case True
      with Some Cons show ?thesis by (simp add: non_null_simps)
    next
      case False
      from Cons.prems obtain d where d: "nat limit - length tracks = Suc d"
        by (cases "nat limit - length tracks") auto
      show ?thesis
      proof (cases "limit \<le> int (length tracks) + 1")
        case True
        with d have "d = 0" by linarith
        with True False Some d show ?thesis by (simp add: non_null_simps Let_def)
      next
        case False': False
        then have lt: "int (length (tracks @ [project_track track])) < limit" by simp
        have d': "nat limit - length (tracks @ [project_track track]) = d"
          using d by simp
        show ?thesis
          using False False' Some d d'
            Cons.IH [OF lt, of "insert (raw_id track) seen"]
          by (simp add: non_null_simps Let_def)
      qed
    qed
  qed
qed


text \<open>
  Claim C1, as amended: for every catalog result list, with repeated ids and null
  entries, and every requested limit of at least 1, \<^verbatim>\<open>search_spotify_by_mood\<close>
  returns the first \<open>limit\<close> tracks of the non-null entries deduplicated by id with the
  first occurrence winning; so each id occurs at most once, the ids are a subsequence
  of the input's ids, and the length is at most \<open>limit\<close>.
\<close>

theorem search_spotify_by_mood_dedup:
  assumes "1 \<le> limit"
    and "spotify_client e = Some client"
    and "client (get_mood_search_query mood) (min (limit * 2) 50) (market e) = Inr items"
  shows "search_spotify_by_mood e mood limit =
           take (nat limit) (map project_track (first_seen raw_id {} (non_null items))) \<and>
         distinct (map track_id (search_spotify_by_mood e mood limit)) \<and>
         subseq (map track_id (search_spotify_by_mood e mood limit))
           (map raw_id (non_null items)) \<and>
         int (length (search_spotify_by_mood e mood limit)) \<le> limit"
proof -
  let ?fs = "first_seen raw_id {} (non_null items)"
  have eq: "search_spotify_by_mood e mood limit = take (nat limit) (map project_track ?fs)"
    using assms search_loop_eq [of "[]" limit items "{}"]
    by (simp add: search_spotify_by_mood_def)
  have ids: "map track_id (take (nat limit) (map project_track ?fs)) =
             take (nat limit) (map raw_id ?fs)"
    by (simp add: take_map project_track_def)
  have d: "distinct (take (nat limit) (map raw_id ?fs))"
    by (rule distinct_take) (rule first_seen_distinct)
  have "subseq (take (nat limit) (map raw_id ?fs)) (map raw_id ?fs)"
    by (metis append_take_drop_id prefix_def prefix_imp_subseq)
  moreover have "subseq (map raw_id ?fs) (map raw_id (non_null items))"
    by (rule subseq_map) (rule first_seen_subseq)
  ultimately have s: "subseq (take (nat limit) (map raw_id ?fs)) (map raw_id (non_null items))"
    by (rule subseq_order.order_trans)
  have l: "int (length (take (nat limit) (map project_track ?fs))) \<le> limit"
    using assms(1) by simp
  show ?thesis using eq ids d s l by simp
qed

text \<open>
  The theorem at a catalog answer with a null entry and a repeated id, limit 2: the
  hypotheses hold and the result is the first two distinct tracks.
\<close>

theorem search_spotify_by_mood_dedup_witness:
  "(1::int) \<le> 2 \<and>
   spotify_client
     (example_env [Some (example_track ''a''), None, Some (example_track ''a''),
                   Some (example_track ''b''), Some (example_track ''c'')] [] []) \<noteq> None \<and>
   search_spotify_by_mood
     (example_env [Some (example_track ''a''), None, Some (example_track ''a''),
                   Some (example_track ''b''), Some (example_track ''c'')] [] []) ''Happy'' 2 =
   [project_track (example_track ''a''), project_track (example_track ''b'')]"
  using search_spotify_by_mood_dedup
    [of 2 "example_env [Some (example_track ''a''), None, Some (example_track ''a''),
                   Some (example_track ''b''), Some (example_track ''c'')] [] []"
        "\<lambda>q l m. Inr [Some (example_track ''a''), None, Some (example_track ''a''),
                   Some (example_track ''b''), Some (example_track ''c'')]" "''Happy''"
        "[Some (example_track ''a''), None, Some (example_track ''a''),
                   Some (example_track ''b''), Some (example_track ''c'')]"]
  by (simp add: example_env_def non_null_simps example_track_def)

text \<open>
  Claim C1 as stated, for every limit, fails: with limit 0 and a catalog answer of one
  track the loop appends the track before it tests the length, and with limit -1 even
  the empty result is longer than the limit.
\<close>

theorem search_limit_counterexample:
  "\<not> int (length (search_spotify_by_mood
                    (example_env [Some (example_track ''a'')] [] []) ''Happy'' 0)) \<le> 0 \<and>
   \<not> int (length (search_spotify_by_mood (example_env [] [] []) ''Happy'' (- 1))) \<le> - 1"
  by (simp add: search_spotify_by_mood_def example_env_def)

section \<open>Properties of the Playlist Manager\<close>

lemma log_call_cache [simp]: "created_playlists (log_call c s) = created_playlists s"
  by (simp add: log_call_def)

lemma creation_calls_log [simp]:
  "creation_calls (log_call c s) = creation_calls s + (if is_creation_call c then 1 else 0)"
  by (simp add: log_call_def creation_calls_def)

lemma creation_calls_cache_upd [simp]:
  "creation_calls (s\<lparr>created_playlists := m\<rparr>) = creation_calls s"
  by (simp add: creation_calls_def)

lemma get_authenticated_fst:
  "fst (get_authenticated_spotify_client e s) = token_accepted e"
  by (cases "current_user_check e")
     (auto simp: get_authenticated_spotify_client_def token_accepted_def
           split: sum.splits option.splits)

lemma get_authenticated_cache [simp]:
  "created_playlists (snd (get_authenticated_spotify_client e s)) = created_playlists s"
  by (auto simp: get_authenticated_spotify_client_def split: sum.splits option.splits)

lemma get_authenticated_creation_calls [simp]:
  "creation_calls (snd (get_authenticated_spotify_client e s)) = creation_calls s"
  by (auto simp: get_authenticated_spotify_client_def split: sum.splits option.splits)

lemma create_cached:
  "tracks \<noteq> [] \<Longrightarrow> created_playlists s mood = Some url \<Longrightarrow>
   create_actual_spotify_playlist e tracks mood s = (Some url, s)"
  by (simp add: create_actual_spotify_playlist_def)

text \<open>What a call does to the cache: nothing, or one insertion for an uncached mood.\<close>

lemma create_effect:
  assumes "create_actual_spotify_playlist e tracks mood s = (r, s')"
  shows "(created_playlists s' = created_playlists s \<and> creation_calls s' \<le> creation_calls s + 1 \<and>
          (r = None \<or> r = created_playlists s mood)) \<or>
         (\<exists>url. r = Some url \<and> tracks \<noteq> [] \<and> token_accepted e \<and> created_playlists s mood = None \<and>
            created_playlists s' = (created_playlists s)(mood \<mapsto> url) \<and>
            creation_calls s' = creation_calls s + 1)"
proof (cases "tracks = [] \<or> created_playlists s mood \<noteq> None")
  case True
  with assms show ?thesis
    by (auto simp: create_actual_spotify_playlist_def split: if_splits)
next
  case False
  obtain a s1 where g: "get_authenticated_spotify_client e s = (a, s1)"
    by (cases "get_authenticated_spotify_client e s")
  have a: "a = token_accepted e" using get_authenticated_fst [of e s] g by simp
  have c1: "created_playlists s1 = created_playlists s"
    using get_authenticated_cache [of e s] g by simp
  have n1: "creation_calls s1 = creation_calls s"
    using get_authenticated_creation_calls [of e s] g by simp
  from False assms g a c1 n1 show ?thesis
    by (auto simp: create_actual_spotify_playlist_def Let_def
             split: sum.splits if_splits bool.splits)
qed

text \<open>
  In authenticated mode, when none of the calls on the client raises, a request for an
  uncached mood returns the URL of the playlist it creates.
\<close>

lemma create_succeeds:
  assumes "tracks \<noteq> []" and "created_playlists s mood = None" and "token_accepted e"
    and "current_user e = Inr user_id"
    and "user_playlist_create e user_id (''kaguya '' @ lower (str_lower e) mood @ '' mood'')
           (''curated '' @ lower (str_lower e) mood @
             '' playlist generated by kaguya ai mood detection'') =
         Inr playlist"
    and "collect_uris (take 50 tracks) [] {} = [] \<or>
         playlist_add_items e (playlist_id playlist) (collect_uris (take 50 tracks) [] {}) = Inr ()"
  shows "fst (create_actual_spotify_playlist e tracks mood s) = Some (playlist_url playlist)"
proof -
  obtain a s1 where g: "get_authenticated_spotify_client e s = (a, s1)"
    by (cases "get_authenticated_spotify_client e s")
  have a: "a" using get_authenticated_fst [of e s] g assms(3) by simp
  from assms(6) show ?thesis
    using assms(1,2,4,5) g a
    by (auto simp: create_actual_spotify_playlist_def Let_def)
qed

text \<open>A successful creation in \<open>example_env\<close>, from an empty cache.\<close>

lemma example_creation:
  "create_actual_spotify_playlist (example_env [] [] []) example_tracks ''Happy'' empty_state =
   (Some ''https://open.spotify.com/playlist/p1'', example_created_state)"
  by (simp add: create_actual_spotify_playlist_def example_env_def empty_state_def
        get_authenticated_spotify_client_def log_call_def Let_def lower_def is_ascii_def lower_char_def
        project_track_def example_track_def truthy_def example_playlist_def
        example_tracks_def example_created_state_def)

text \<open>
  Claim C2, as amended: once a URL for a mood is stored in \<^verbatim>\<open>created_playlists\<close>, a
  request for that mood with a non-empty track list returns the stored URL and leaves
  the state, the trace of external calls included, as it was. A request for an uncached
  mood in authenticated mode, none of whose calls raises, returns the URL of the
  playlist it creates. When a request for an uncached mood returns a URL, that URL is
  stored, the request has made exactly one external creation call, and the next request
  for the mood, in whatever environment, returns the same URL and makes no call: two
  requests, one creation call. An entry already in the cache is never replaced.
\<close>

theorem playlist_creation_idempotent:
  assumes "tracks \<noteq> []" and "tracks' \<noteq> []"
    and "create_actual_spotify_playlist e tracks mood s = (r, s1)"
  shows "(created_playlists s mood = Some url \<longrightarrow> r = Some url \<and> s1 = s) \<and>
         (created_playlists s mood = None \<and> token_accepted e \<and>
          current_user e = Inr user_id \<and>
          user_playlist_create e user_id (''kaguya '' @ lower (str_lower e) mood @ '' mood'')
            (''curated '' @ lower (str_lower e) mood @
             '' playlist generated by kaguya ai mood detection'') =
            Inr playlist \<and>
          (collect_uris (take 50 tracks) [] {} = [] \<or>
           playlist_add_items e (playlist_id playlist) (collect_uris (take 50 tracks) [] {}) =
             Inr ()) \<longrightarrow>
            r = Some (playlist_url playlist)) \<and>
         (created_playlists s mood = None \<and> r = Some url \<longrightarrow>
            created_playlists s1 mood = Some url \<and>
            creation_calls s1 = creation_calls s + 1 \<and>
            create_actual_spotify_playlist e' tracks' mood s1 = (Some url, s1)) \<and>
         (created_playlists s m = Some u \<longrightarrow> created_playlists s1 m = Some u)"
proof (intro conjI impI)
  assume "created_playlists s mood = Some url"
  then show "r = Some url" "s1 = s"
    using assms(1,3) create_cached [of tracks s mood url e] by simp_all
next
  assume "created_playlists s mood = None \<and> token_accepted e \<and>
          current_user e = Inr user_id \<and>
          user_playlist_create e user_id (''kaguya '' @ lower (str_lower e) mood @ '' mood'')
            (''curated '' @ lower (str_lower e) mood @
             '' playlist generated by kaguya ai mood detection'') =
            Inr playlist \<and>
          (collect_uris (take 50 tracks) [] {} = [] \<or>
           playlist_add_items e (playlist_id playlist) (collect_uris (take 50 tracks) [] {}) =
             Inr ())"
  then have "fst (create_actual_spotify_playlist e tracks mood s) = Some (playlist_url playlist)"
    using create_succeeds [OF assms(1), of s mood e user_id playlist] by blast
  with assms(3) show "r = Some (playlist_url playlist)" by simp
next
  assume a: "created_playlists s mood = None \<and> r = Some url"
  with create_effect [OF assms(3)]
  have ins: "created_playlists s1 = (created_playlists s)(mood \<mapsto> url)"
    and n: "creation_calls s1 = creation_calls s + 1"
    by auto
  from ins show "created_playlists s1 mood = Some url" by simp
  from n show "creation_calls s1 = creation_calls s + 1" .
  from ins show "create_actual_spotify_playlist e' tracks' mood s1 = (Some url, s1)"
    using assms(2) create_cached [of tracks' s1 mood url e'] by simp
next
  assume "created_playlists s m = Some u"
  with create_effect [OF assms(3)] show "created_playlists s1 m = Some u"
    by auto
qed

text \<open>
  The theorem on two requests for \<^verbatim>\<open>Happy\<close> from an empty cache: the first creates
  the playlist with one creation call, the second, made without OAuth configuration,
  returns the cached URL and changes nothing.
\<close>

theorem playlist_creation_idempotent_witness:
  "example_tracks \<noteq> [] \<and>
   created_playlists empty_state ''Happy'' = None \<and>
   token_accepted (example_env [] [] []) \<and>
   create_actual_spotify_playlist (example_env [] [] []) example_tracks ''Happy'' empty_state =
     (Some ''https://open.spotify.com/playlist/p1'', example_created_state) \<and>
   created_playlists example_created_state ''Happy'' = Some ''https://open.spotify.com/playlist/p1'' \<and>
   creation_calls example_created_state = creation_calls empty_state + 1 \<and>
   create_actual_spotify_playlist unauthenticated_env example_tracks ''Happy''
     example_created_state =
     (Some ''https://open.spotify.com/playlist/p1'', example_created_state)"
proof -
  let ?url = "''https://open.spotify.com/playlist/p1''"
  let ?name = "''kaguya '' @ lower (str_lower (example_env [] [] [])) ''Happy'' @ '' mood''"
  have t: "example_tracks \<noteq> []" by (simp add: example_tracks_def)
  have c: "created_playlists empty_state ''Happy'' = None" by (simp add: empty_state_def)
  have a: "token_accepted (example_env [] [] [])"
    by (simp add: token_accepted_def example_env_def)
  have api: "current_user (example_env [] [] []) = Inr ''me'' \<and>
     user_playlist_create (example_env [] [] []) ''me'' ?name
       (''curated '' @ lower (str_lower (example_env [] [] [])) ''Happy'' @
             '' playlist generated by kaguya ai mood detection'') =
       Inr (example_playlist ''p1'' ?name) \<and>
     (collect_uris (take 50 example_tracks) [] {} = [] \<or>
      playlist_add_items (example_env [] [] []) (playlist_id (example_playlist ''p1'' ?name))
        (collect_uris (take 50 example_tracks) [] {}) = Inr ())"
    by (simp add: example_env_def)
  have u: "playlist_url (example_playlist ''p1'' ?name) = ?url"
    by (simp add: example_playlist_def)
  note first = playlist_creation_idempotent
    [OF t t example_creation, of ?url "''me''" "example_playlist ''p1'' ?name"
       unauthenticated_env "''Happy''" ?url]
  from first c a api have r: "Some ?url = Some (playlist_url (example_playlist ''p1'' ?name))"
    by blast
  from first c
  have third: "created_playlists example_created_state ''Happy'' = Some ?url \<and>
     creation_calls example_created_state = creation_calls empty_state + 1 \<and>
     create_actual_spotify_playlist unauthenticated_env example_tracks ''Happy''
       example_created_state = (Some ?url, example_created_state)"
    by blast
  then have second: "create_actual_spotify_playlist unauthenticated_env example_tracks ''Happy''
     example_created_state = (Some ?url, example_created_state)"
    by blast
  note hit = playlist_creation_idempotent
    [OF t t second, of ?url "''me''" "example_playlist ''p1'' ?name" unauthenticated_env
       "''Happy''" ?url]
  from hit third have "Some ?url = Some ?url \<and> example_created_state = example_created_state"
    by blast
  with t c a example_creation third show ?thesis by blast
qed

text \<open>
  Two requests in authenticated mode where a call raises: adding the tracks, after the
  playlist has been created, or the creation itself. Nothing is cached, so the second
  request goes through the same calls.
\<close>

lemma add_items_failing_request:
  assumes "created_playlists s ''Happy'' = None"
  shows "create_actual_spotify_playlist add_items_failing_env example_tracks ''Happy'' s =
     (None,
      s\<lparr>api_calls := api_calls s @
          [CurrentUser, CurrentUser,
           UserPlaylistCreate ''me'' ''kaguya happy mood''
             ''curated happy playlist generated by kaguya ai mood detection'',
           PlaylistAddItems ''p1'' [''spotify:track:a'']]\<rparr>)"
  using assms
  by (simp add: create_actual_spotify_playlist_def add_items_failing_env_def example_env_def
        get_authenticated_spotify_client_def log_call_def Let_def lower_def is_ascii_def
        lower_char_def project_track_def example_track_def truthy_def example_playlist_def
        example_tracks_def)

lemma create_failing_request:
  assumes "created_playlists s ''Happy'' = None"
  shows "create_actual_spotify_playlist create_failing_env example_tracks ''Happy'' s =
     (None,
      s\<lparr>api_calls := api_calls s @
          [CurrentUser, CurrentUser,
           UserPlaylistCreate ''me'' ''kaguya happy mood''
             ''curated happy playlist generated by kaguya ai mood detection'']\<rparr>)"
  using assms
  by (simp add: create_actual_spotify_playlist_def create_failing_env_def example_env_def
        get_authenticated_spotify_client_def log_call_def Let_def lower_def is_ascii_def
        lower_char_def example_tracks_def)

text \<open>
  Claim C2 as stated fails: under an accepted token, when adding the tracks raises (or
  the creation call itself), two requests for \<^verbatim>\<open>Happy\<close> make two external creation
  calls and the second returns no URL.
\<close>

theorem playlist_creation_two_calls_counterexample:
  "token_accepted add_items_failing_env \<and> token_accepted create_failing_env \<and>
   example_tracks \<noteq> [] \<and>
   fst (create_actual_spotify_playlist add_items_failing_env example_tracks ''Happy''
          (snd (create_actual_spotify_playlist add_items_failing_env example_tracks ''Happy''
                  empty_state))) = None \<and>
   creation_calls
     (snd (create_actual_spotify_playlist add_items_failing_env example_tracks ''Happy''
             (snd (create_actual_spotify_playlist add_items_failing_env example_tracks ''Happy''
                     empty_state)))) = 2 \<and>
   creation_calls
     (snd (create_actual_spotify_playlist create_failing_env example_tracks ''Happy''
             (snd (create_actual_spotify_playlist create_failing_env example_tracks ''Happy''
                     empty_state)))) = 2"
proof -
  have a: "token_accepted add_items_failing_env" "token_accepted create_failing_env"
    by (simp_all add: token_accepted_def add_items_failing_env_def create_failing_env_def
          example_env_def)
  have t: "example_tracks \<noteq> []" by (simp add: example_tracks_def)
  have e: "created_playlists empty_state ''Happy'' = None" by (simp add: empty_state_def)
  show ?thesis
    using a t
    by (simp add: add_items_failing_request create_failing_request e creation_calls_def
          empty_state_def)
qed

text \<open>
  Claim C9: with an empty track list, \<^verbatim>\<open>create_actual_spotify_playlist\<close> returns no
  URL and the state is unchanged, for every mood, environment and state: the cache is
  neither read (the result does not depend on it) nor written, and no external call is
  added to the trace.
\<close>

theorem empty_tracks_no_playlist:
  "create_actual_spotify_playlist e [] mood s = (None, s)"
  by (simp add: create_actual_spotify_playlist_def)

text \<open>The theorem in a state whose cache holds the mood.\<close>

theorem empty_tracks_no_playlist_witness:
  "created_playlists example_created_state ''Happy'' \<noteq> None \<and>
   create_actual_spotify_playlist (example_env [] [] []) [] ''Happy'' example_created_state =
     (None, example_created_state)"
  using empty_tracks_no_playlist [of "example_env [] [] []" "''Happy''" example_created_state]
  by (simp add: example_created_state_def)

subsection \<open>The fallback URL generator\<close>

lemma mood_values:
  "set MOOD_LABELS_values =
     {''Angry'', ''Disgust'', ''Fear'', ''Happy'', ''Sad'', ''Surprise'', ''Neutral''}"
  by (simp add: MOOD_LABELS_values_def MOOD_LABELS_def)

lemma quote_known_mood:
  assumes "mood \<in> set MOOD_LABELS_values"
  shows "quote (lower u mood @ '' music'') = lower u mood @ ''%20music''"
  using assms unfolding mood_values
  by (auto simp: quote_def quote_char_def always_safe_def hex_digit_def lower_def is_ascii_def lower_char_def)

lemma known_mood_truthy: "mood \<in> set MOOD_LABELS_values \<Longrightarrow> truthy (Some mood)"
  unfolding mood_values by (auto simp: truthy_def)

text \<open>
  Claim C3, as amended: for every known mood, \<^verbatim>\<open>create_spotify_playlist_url\<close>
  returns no URL for an empty track list; for a non-empty track list none of whose
  first five tracks has both a name and an artist it returns the Spotify search URL
  of the percent-encoded mood-only query, the lower-cased mood followed by
  \<^verbatim>\<open>music\<close>.
\<close>

theorem fallback_url_mood_only:
  assumes "mood \<in> set MOOD_LABELS_values"
  shows "create_spotify_playlist_url u [] (Some mood) = None \<and>
         (tracks \<noteq> [] \<and> track_names_of tracks = [] \<longrightarrow>
            create_spotify_playlist_url u tracks (Some mood) =
              Some (''https://open.spotify.com/search/'' @ quote (lower u mood @ '' music'')))"
  using known_mood_truthy [OF assms] quote_known_mood [OF assms, of u]
  by (simp add: create_spotify_playlist_url_def Let_def)

text \<open>The theorem at \<^verbatim>\<open>Happy\<close> and one track without a name.\<close>

theorem fallback_url_mood_only_witness:
  "''Happy'' \<in> set MOOD_LABELS_values \<and>
   [(project_track (example_track ''a''))\<lparr>track_name := None\<rparr>] \<noteq> [] \<and>
   track_names_of [(project_track (example_track ''a''))\<lparr>track_name := None\<rparr>] = [] \<and>
   create_spotify_playlist_url example_str_lower
     [(project_track (example_track ''a''))\<lparr>track_name := None\<rparr>]
     (Some ''Happy'') = Some ''https://open.spotify.com/search/happy%20music''"
proof -
  have m: "''Happy'' \<in> set MOOD_LABELS_values" by (simp add: mood_values)
  have n: "track_names_of [(project_track (example_track ''a''))\<lparr>track_name := None\<rparr>] = []"
    by (simp add: track_names_of_def truthy_def)
  have q: "quote (lower example_str_lower ''Happy'' @ '' music'') = ''happy%20music''"
    by (simp add: quote_def quote_char_def always_safe_def hex_digit_def lower_def
          is_ascii_def lower_char_def)
  from fallback_url_mood_only
    [OF m, of example_str_lower "[(project_track (example_track ''a''))\<lparr>track_name := None\<rparr>]"]
    m n q show ?thesis by simp
qed

text \<open>
  Claim C3 as stated fails: for the known mood \<^verbatim>\<open>Happy\<close> and the empty track
  list the generator returns no URL.
\<close>

theorem fallback_url_empty_tracks_counterexample:
  "''Happy'' \<in> set MOOD_LABELS_values \<and>
   create_spotify_playlist_url example_str_lower [] (Some ''Happy'') = None"
  by (simp add: create_spotify_playlist_url_def mood_values)

subsection \<open>Requests without an authenticated client\<close>

lemma create_unauthenticated:
  assumes "\<not> token_accepted e" and "tracks \<noteq> []"
  shows "fst (create_actual_spotify_playlist e tracks mood s) = created_playlists s mood \<and>
         created_playlists (snd (create_actual_spotify_playlist e tracks mood s)) =
           created_playlists s \<and>
         creation_calls (snd (create_actual_spotify_playlist e tracks mood s)) = creation_calls s"
proof (cases "created_playlists s mood")
  case (Some url)
  with assms(2) show ?thesis by (simp add: create_cached)
next
  case None
  obtain a s1 where g: "get_authenticated_spotify_client e s = (a, s1)"
    by (cases "get_authenticated_spotify_client e s")
  have a: "\<not> a" using get_authenticated_fst [of e s] g assms(1) by simp
  have "created_playlists s1 = created_playlists s" "creation_calls s1 = creation_calls s"
    using get_authenticated_cache [of e s] get_authenticated_creation_calls [of e s] g by simp_all
  with None assms(2) g a show ?thesis
    by (simp add: create_actual_spotify_playlist_def)
qed

lemma track_names_of_length: "length (track_names_of tracks) \<le> 5"
proof -
  have "length (track_names_of tracks) \<le> length (take 5 tracks)"
    unfolding track_names_of_def length_map by (rule length_filter_le)
  then show ?thesis by simp
qed

lemma fallback_url_from_tracks:
  assumes "mood \<noteq> []" and "track_names_of tracks \<noteq> []"
  shows "create_spotify_playlist_url u tracks (Some mood) =
           Some (''https://open.spotify.com/search/'' @
                 quote (mood @ (if \<exists>t\<in>set tracks. truthy (track_id t) then '' '' else '' mood '') @
                        join '' '' (track_names_of tracks)))"
proof -
  have ne: "tracks \<noteq> []" using assms(2) by (auto simp: track_names_of_def)
  have ids: "(filter (\<lambda>t. truthy (track_id t)) tracks \<noteq> []) = (\<exists>t\<in>set tracks. truthy (track_id t))"
    by (simp add: filter_empty_conv)
  show ?thesis using assms ne ids
    by (simp add: create_spotify_playlist_url_def Let_def truthy_def)
qed

text \<open>
  Claim C4, as amended: when playlist creation runs without an accepted token and with
  a non-empty track list, \<^verbatim>\<open>create_actual_spotify_playlist\<close> returns the URL cached
  for the mood if there is one and no URL otherwise, never a fallback search URL; it
  does not write the cache and makes no creation call. The fallback search URL, the
  percent-encoded query made of the mood and of at most five \<^verbatim>\<open>name artist\<close>
  strings of the first five tracks, is what the separate generator
  \<^verbatim>\<open>create_spotify_playlist_url\<close> returns, a function of the tracks and the mood
  alone, whatever the interpreter's lower-casing.
\<close>

theorem unauthenticated_creation_no_fallback:
  assumes "\<not> token_accepted e" and "tracks \<noteq> []"
  shows "fst (create_actual_spotify_playlist e tracks mood s) = created_playlists s mood \<and>
         created_playlists (snd (create_actual_spotify_playlist e tracks mood s)) =
           created_playlists s \<and>
         creation_calls (snd (create_actual_spotify_playlist e tracks mood s)) = creation_calls s \<and>
         length (track_names_of tracks) \<le> 5 \<and>
         (mood \<noteq> [] \<and> track_names_of tracks \<noteq> [] \<longrightarrow>
            create_spotify_playlist_url u tracks (Some mood) =
              Some (''https://open.spotify.com/search/'' @
                    quote (mood @
                           (if \<exists>t\<in>set tracks. truthy (track_id t) then '' '' else '' mood '') @
                           join '' '' (track_names_of tracks))))"
  using create_unauthenticated [OF assms] track_names_of_length fallback_url_from_tracks
  by blast

lemma example_names: "track_names_of example_tracks = [''Song a Band'']"
  by (simp add: track_names_of_def example_tracks_def project_track_def example_track_def truthy_def)

text \<open>
  The theorem without OAuth configuration, on one track and an empty cache: no URL
  comes back, the cache stays empty, and the generator would have built a search URL.
\<close>

theorem unauthenticated_creation_no_fallback_witness:
  "\<not> token_accepted unauthenticated_env \<and> example_tracks \<noteq> [] \<and>
   fst (create_actual_spotify_playlist unauthenticated_env example_tracks ''Happy'' empty_state) = None \<and>
   created_playlists
     (snd (create_actual_spotify_playlist unauthenticated_env example_tracks ''Happy'' empty_state)) =
     Map.empty \<and>
   create_spotify_playlist_url example_str_lower example_tracks (Some ''Happy'') =
     Some ''https://open.spotify.com/search/Happy%20Song%20a%20Band''"
proof -
  have u: "\<not> token_accepted unauthenticated_env"
    by (simp add: token_accepted_def unauthenticated_env_def)
  have t: "example_tracks \<noteq> []" by (simp add: example_tracks_def)
  have i: "\<exists>t\<in>set example_tracks. truthy (track_id t)"
    by (simp add: example_tracks_def project_track_def example_track_def truthy_def)
  have q: "quote (''Happy'' @ '' '' @ join '' '' [''Song a Band'']) = ''Happy%20Song%20a%20Band''"
    by (simp add: quote_def quote_char_def always_safe_def hex_digit_def)
  from unauthenticated_creation_no_fallback [OF u t, of "''Happy''" empty_state example_str_lower]
    u t i q
  show ?thesis by (simp add: example_names empty_state_def)
qed

text \<open>
  Claim C4 as stated fails: without an accepted token the playlist endpoint answers
  with no playlist URL, not a fallback search URL, and
  \<^verbatim>\<open>create_actual_spotify_playlist\<close> reads the cache, returning the URL a mood has
  there.
\<close>

theorem unauthenticated_fallback_counterexample:
  "\<not> token_accepted unauthenticated_env \<and>
   fst (get_playlist_by_mood unauthenticated_env ''Happy'' 20 empty_state) =
     Inr \<lparr>resp_mood = ''Happy'', resp_playlist_url = None, resp_tracks = example_tracks\<rparr> \<and>
   create_actual_spotify_playlist unauthenticated_env example_tracks ''Happy'' empty_state =
     (None, empty_state) \<and>
   create_actual_spotify_playlist unauthenticated_env example_tracks ''Happy''
     example_created_state = (Some ''https://open.spotify.com/playlist/p1'', example_created_state)"
  by (simp add: get_playlist_by_mood_def MOOD_LABELS_values_def MOOD_LABELS_def
        search_spotify_by_mood_def unauthenticated_env_def example_env_def
        create_actual_spotify_playlist_def empty_state_def token_accepted_def
        get_authenticated_spotify_client_def Let_def example_tracks_def example_created_state_def)

subsection \<open>The playlist endpoint\<close>

text \<open>
  Claim C5, as amended: for every mood of the enumeration the playlist endpoint answers
  200 with a non-empty track list, or 503, or 404, never 400; for every other mood it
  answers 400 when the catalog client is available and 503 when it is not, since the
  client is tested first.
\<close>

theorem playlist_endpoint_status:
  "(mood \<in> {''Angry'', ''Disgust'', ''Fear'', ''Happy'', ''Sad'', ''Surprise'', ''Neutral''} \<longrightarrow>
      (case fst (get_playlist_by_mood e mood limit s) of
         Inl (HTTPException code) \<Rightarrow> code = 503 \<or> code = 404
       | Inr resp \<Rightarrow> resp_mood resp = mood \<and> resp_tracks resp \<noteq> [])) \<and>
   (mood \<notin> {''Angry'', ''Disgust'', ''Fear'', ''Happy'', ''Sad'', ''Surprise'', ''Neutral''} \<longrightarrow>
      fst (get_playlist_by_mood e mood limit s) =
        Inl (HTTPException (if spotify_client e = None then 503 else 400)))"
  unfolding mood_values [symmetric]
  by (simp add: get_playlist_by_mood_def Let_def split: prod.splits)

text \<open>
  The theorem on three requests: a known mood with one track found, a known mood with
  nothing found, an unknown mood.
\<close>

theorem playlist_endpoint_status_witness:
  "''Happy'' \<in> {''Angry'', ''Disgust'', ''Fear'', ''Happy'', ''Sad'', ''Surprise'', ''Neutral''} \<and>
   ''Joy'' \<notin> {''Angry'', ''Disgust'', ''Fear'', ''Happy'', ''Sad'', ''Surprise'', ''Neutral''} \<and>
   fst (get_playlist_by_mood (example_env [Some (example_track ''a'')] [] []) ''Happy'' 20 empty_state) =
     Inr \<lparr>resp_mood = ''Happy'', resp_playlist_url = Some ''https://open.spotify.com/playlist/p1'',
          resp_tracks = example_tracks\<rparr> \<and>
   fst (get_playlist_by_mood (example_env [] [] []) ''Happy'' 20 empty_state) = Inl (HTTPException 404) \<and>
   fst (get_playlist_by_mood (example_env [] [] []) ''Joy'' 20 empty_state) = Inl (HTTPException 400)"
proof -
  have a: "fst (get_playlist_by_mood (example_env [Some (example_track ''a'')] [] []) ''Happy'' 20 empty_state) =
     Inr \<lparr>resp_mood = ''Happy'', resp_playlist_url = Some ''https://open.spotify.com/playlist/p1'',
          resp_tracks = example_tracks\<rparr>"
    by (simp add: get_playlist_by_mood_def mood_values search_spotify_by_mood_def example_env_def
        create_actual_spotify_playlist_def empty_state_def
        get_authenticated_spotify_client_def log_call_def Let_def lower_def is_ascii_def lower_char_def
        project_track_def example_track_def truthy_def example_playlist_def
        example_tracks_def)
  have b: "fst (get_playlist_by_mood (example_env [] [] []) ''Happy'' 20 empty_state) = Inl (HTTPException 404)"
    by (simp add: get_playlist_by_mood_def mood_values search_spotify_by_mood_def example_env_def)
  from a b playlist_endpoint_status [of "''Happy''" "example_env [Some (example_track ''a'')] [] []" 20 empty_state]
    playlist_endpoint_status [of "''Joy''" "example_env [] [] []" 20 empty_state]
  show ?thesis by (simp add: example_env_def)
qed

text \<open>
  Claim C5 as stated fails: without a catalog client an unknown mood is answered with
  503, not 400.
\<close>

theorem playlist_endpoint_invalid_mood_counterexample:
  "''Joy'' \<notin> set MOOD_LABELS_values \<and>
   fst (get_playlist_by_mood ((example_env [] [] [])\<lparr>spotify_client := None\<rparr>) ''Joy'' 20 empty_state) =
     Inl (HTTPException 503)"
  by (simp add: get_playlist_by_mood_def mood_values)

subsection \<open>Cleanup\<close>

text \<open>
  The paging loop changes only the trace; and when the service hands out the list
  \<open>owned\<close> in honest pages the loop ends and has collected exactly \<open>owned\<close>.
\<close>

lemma fetch_playlists_cache:
  assumes "fetch_playlists e off acc s = Some y"
  shows "created_playlists (snd y) = created_playlists s \<and>
         creation_calls (snd y) = creation_calls s"
proof (rule fetch_playlists.raw_induct
    [where P = "\<lambda>e off acc s y. created_playlists (snd y) = created_playlists s \<and>
                                 creation_calls (snd y) = creation_calls s", OF _ assms])
  fix f e off acc s y
  assume IH: "\<And>e off acc s y. f e off acc s = Some y \<Longrightarrow>
      created_playlists (snd y) = created_playlists s \<and> creation_calls (snd y) = creation_calls s"
    and body: "(case current_user_playlists e 50 off of
       Inl ex \<Rightarrow> Some (Inl ex, log_call (CurrentUserPlaylists 50 off) s)
     | Inr items \<Rightarrow>
         if length items < 50
         then Some (Inr (acc @ items), log_call (CurrentUserPlaylists 50 off) s)
         else f e (off + 50) (acc @ items) (log_call (CurrentUserPlaylists 50 off) s)) = Some y"
  show "created_playlists (snd y) = created_playlists s \<and>
        creation_calls (snd y) = creation_calls s"
  proof (cases "current_user_playlists e 50 off")
    case (Inl ex)
    with body show ?thesis by auto
  next
    case (Inr items)
    show ?thesis
    proof (cases "length items < 50")
      case True
      with Inr body show ?thesis by auto
    next
      case False
      with Inr body IH [of e "off + 50" "acc @ items" "log_call (CurrentUserPlaylists 50 off) s" y]
      show ?thesis by simp
    qed
  qed
qed

lemma fetch_playlists_paged:
  assumes "\<forall>off. current_user_playlists e 50 off = Inr (take 50 (drop off owned))"
  shows "\<exists>s'. fetch_playlists e off acc s = Some (Inr (acc @ drop off owned), s')"
proof (induction "length owned - off" arbitrary: off acc s rule: less_induct)
  case less
  show ?case
  proof (cases "length owned - off < 50")
    case True
    then have "take 50 (drop off owned) = drop off owned" by simp
    with True assms show ?thesis
      by (subst fetch_playlists.simps) simp
  next
    case False
    then have lt: "length owned - (off + 50) < length owned - off" by simp
    have split: "take 50 (drop off owned) @ drop (off + 50) owned = drop off owned"
      by (metis add.commute append_take_drop_id drop_drop)
    have eq: "(acc @ take 50 (drop off owned)) @ drop (off + 50) owned = acc @ drop off owned"
      using split by simp
    from less [OF lt, of "acc @ take 50 (drop off owned)"
                 "log_call (CurrentUserPlaylists 50 off) s"]
    obtain s' where "fetch_playlists e (off + 50) (acc @ take 50 (drop off owned))
        (log_call (CurrentUserPlaylists 50 off) s) =
        Some (Inr ((acc @ take 50 (drop off owned)) @ drop (off + 50) owned), s')"
      by blast
    then have "fetch_playlists e (off + 50) (acc @ take 50 (drop off owned))
        (log_call (CurrentUserPlaylists 50 off) s) = Some (Inr (acc @ drop off owned), s')"
      unfolding eq .
    with False assms show ?thesis
      by (subst fetch_playlists.simps) simp
  qed
qed

lemma delete_loop_fst:
  "fst (delete_loop e user_id ps acc s) =
     acc @ filter (\<lambda>p. \<not> isl (user_playlist_unfollow e user_id (playlist_id p))) ps"
  by (induction ps arbitrary: acc s) (auto split: sum.splits)

lemma delete_loop_creation_calls:
  "creation_calls (snd (delete_loop e user_id ps acc s)) = creation_calls s"
  by (induction ps arbitrary: acc s) (auto split: sum.splits)

text \<open>What cleanup does to the cache: nothing, or, once a brand playlist is listed, a clear.\<close>

lemma cleanup_effect:
  assumes "cleanup_kaguya_playlists e s = Some (r, s')"
  shows "(created_playlists s' = created_playlists s \<and>
          (\<forall>resp. r = Inr resp \<longrightarrow> deleted_playlists resp = [])) \<or>
         (token_accepted e \<and> created_playlists s' = Map.empty)"
proof -
  obtain a s1 where g: "get_authenticated_spotify_client e s = (a, s1)"
    by (cases "get_authenticated_spotify_client e s")
  have a: "a = token_accepted e" using get_authenticated_fst [of e s] g by simp
  have c1: "created_playlists s1 = created_playlists s"
    using get_authenticated_cache [of e s] g by simp
  show ?thesis
  proof (cases "a \<and> \<not> isl (current_user e)")
    case False
    with assms g c1 show ?thesis
      by (auto simp: cleanup_kaguya_playlists_def split: sum.splits bool.splits)
  next
    case True
    then obtain user_id where u: "current_user e = Inr user_id"
      by (cases "current_user e") auto
    from assms g True u obtain fr s3 where
      f: "fetch_playlists e 0 [] (log_call CurrentUser s1) = Some (fr, s3)"
      by (auto simp: cleanup_kaguya_playlists_def split: option.splits)
    have c3: "created_playlists s3 = created_playlists s"
      using fetch_playlists_cache [OF f] c1 by simp
    from assms g True u f c3 a show ?thesis
      by (auto simp: cleanup_kaguya_playlists_def Let_def
               split: sum.splits if_splits prod.splits)
  qed
qed

text \<open>
  A run of cleanup in authenticated mode, over a listing served in honest pages in which
  some playlist carries the brand prefix.
\<close>

lemma cleanup_run:
  assumes "token_accepted e"
    and "current_user e = Inr user_id"
    and "\<forall>off. current_user_playlists e 50 off = Inr (take 50 (drop off owned))"
    and "\<exists>p\<in>set owned. is_kaguya (str_lower e) p"
  shows "\<exists>s'. cleanup_kaguya_playlists e s =
           Some (Inr \<lparr>status = ''success'',
                      deleted_count =
                        length (filter (\<lambda>p. is_kaguya (str_lower e) p \<and>
                                  \<not> isl (user_playlist_unfollow e user_id (playlist_id p))) owned),
                      deleted_playlists =
                        filter (\<lambda>p. is_kaguya (str_lower e) p \<and>
                                  \<not> isl (user_playlist_unfollow e user_id (playlist_id p))) owned\<rparr>,
                 s') \<and>
         created_playlists s' = Map.empty"
proof -
  let ?k = "is_kaguya (str_lower e)"
  obtain a s1 where g: "get_authenticated_spotify_client e s = (a, s1)"
    by (cases "get_authenticated_spotify_client e s")
  have a: "a" using get_authenticated_fst [of e s] g assms(1) by simp
  obtain s3 where
    f: "fetch_playlists e 0 [] (log_call CurrentUser s1) = Some (Inr owned, s3)"
    using fetch_playlists_paged [OF assms(3), of 0 "[]" "log_call CurrentUser s1"] by auto
  have k: "filter ?k owned \<noteq> []"
    using assms(4) by (simp add: filter_empty_conv)
  obtain d s4 where dl: "delete_loop e user_id (filter ?k owned) [] s3 = (d, s4)"
    by (cases "delete_loop e user_id (filter ?k owned) [] s3")
  have d: "d = filter (\<lambda>p. ?k p \<and>
                  \<not> isl (user_playlist_unfollow e user_id (playlist_id p))) owned"
    using delete_loop_fst [of e user_id "filter ?k owned" "[]" s3] dl
    by (simp add: conj_commute)
  from g a assms(2) f k dl d show ?thesis
    by (simp add: cleanup_kaguya_playlists_def Let_def)
qed

text \<open>
  Claim C6: in authenticated mode, when the service lists the user's playlists
  \<open>owned\<close> and at least one name, lower-cased by \<^verbatim>\<open>str.lower\<close>, starts with
  \<^verbatim>\<open>kaguya\<close>, cleanup returns, reports as deleted exactly the matching playlists
  whose unfollow call did not raise, in their order (so a failed deletion is skipped
  and the following ones are still deleted), and leaves \<^verbatim>\<open>created_playlists\<close>
  empty. This holds whatever the interpreter's lower-casing of non-ASCII names is.
\<close>

theorem cleanup_deletes_kaguya_playlists:
  assumes "token_accepted e"
    and "current_user e = Inr user_id"
    and "\<forall>off. current_user_playlists e 50 off = Inr (take 50 (drop off owned))"
    and "\<exists>p\<in>set owned. is_kaguya (str_lower e) p"
  shows "\<exists>s'. cleanup_kaguya_playlists e s =
           Some (Inr \<lparr>status = ''success'',
                      deleted_count =
                        length (filter (\<lambda>p. is_kaguya (str_lower e) p \<and>
                                  \<not> isl (user_playlist_unfollow e user_id (playlist_id p))) owned),
                      deleted_playlists =
                        filter (\<lambda>p. is_kaguya (str_lower e) p \<and>
                                  \<not> isl (user_playlist_unfollow e user_id (playlist_id p))) owned\<rparr>,
                 s') \<and>
         created_playlists s' = Map.empty"
  using assms by (rule cleanup_run)

lemma kelvin_name_lower: "lower example_str_lower kelvin_name = ''kaguya chill''"
  by (simp add: kelvin_name_def lower_def is_ascii_def lower_char_def)

lemma example_owned_kaguya:
  "filter (is_kaguya example_str_lower) example_owned =
     [example_playlist ''1'' ''kaguya happy mood'', example_playlist ''3'' ''KAGUYA sad mood'',
      example_playlist ''4'' ''Kaguya Angry Mood'', example_playlist ''6'' kelvin_name]"
  by (simp add: example_owned_def is_kaguya_def startswith_def example_playlist_def
        kelvin_name_lower)
     (simp add: lower_def is_ascii_def lower_char_def)

text \<open>
  The theorem on six playlists, four of them matching, one of these by the Kelvin
  sign, the deletion of the second match failing, and a cache that holds an entry.
\<close>

theorem cleanup_deletes_kaguya_playlists_witness:
  "token_accepted (example_env [] example_owned [''3'']) \<and>
   current_user (example_env [] example_owned [''3'']) = Inr ''me'' \<and>
   (\<exists>p\<in>set example_owned. is_kaguya (str_lower (example_env [] example_owned [''3''])) p) \<and>
   created_playlists example_created_state \<noteq> Map.empty \<and>
   (\<exists>s'. cleanup_kaguya_playlists (example_env [] example_owned [''3'']) example_created_state =
           Some (Inr \<lparr>status = ''success'', deleted_count = 3,
                      deleted_playlists =
                        [example_playlist ''1'' ''kaguya happy mood'',
                         example_playlist ''4'' ''Kaguya Angry Mood'',
                         example_playlist ''6'' kelvin_name]\<rparr>, s') \<and>
         created_playlists s' = Map.empty)"
proof -
  let ?e = "example_env [] example_owned [''3'']"
  have l: "str_lower ?e = example_str_lower" by (simp add: example_env_def)
  have t: "token_accepted ?e" by (simp add: token_accepted_def example_env_def)
  have u: "current_user ?e = Inr ''me''" by (simp add: example_env_def)
  have p: "\<forall>off. current_user_playlists ?e 50 off = Inr (take 50 (drop off example_owned))"
    by (simp add: example_env_def)
  have k: "\<exists>p\<in>set example_owned. is_kaguya (str_lower ?e) p"
    unfolding l using example_owned_kaguya by (metis filter_empty_conv list.distinct(1))
  have "filter (\<lambda>p. \<not> isl (user_playlist_unfollow ?e ''me'' (playlist_id p)))
          (filter (is_kaguya example_str_lower) example_owned) =
        [example_playlist ''1'' ''kaguya happy mood'', example_playlist ''4'' ''Kaguya Angry Mood'',
         example_playlist ''6'' kelvin_name]"
    unfolding example_owned_kaguya by (simp add: example_playlist_def example_env_def)
  then have f: "filter (\<lambda>p. is_kaguya (str_lower ?e) p \<and>
                     \<not> isl (user_playlist_unfollow ?e ''me'' (playlist_id p))) example_owned =
        [example_playlist ''1'' ''kaguya happy mood'', example_playlist ''4'' ''Kaguya Angry Mood'',
         example_playlist ''6'' kelvin_name]"
    unfolding l by (simp add: conj_commute)
  have c: "created_playlists example_created_state \<noteq> Map.empty"
    by (auto simp: example_created_state_def dest: fun_cong [where x = "''Happy''"])
  from cleanup_deletes_kaguya_playlists [OF t u p k, of example_created_state] t u k c
  show ?thesis unfolding f by (simp add: numeral_3_eq_3)
qed

section \<open>Properties of the Face Extractor\<close>

lemma max_by_ge_best: "key b \<le> key (max_by key b xs)"
proof (induction xs arbitrary: b)
  case Nil
  show ?case by simp
next
  case (Cons x xs)
  have "key b \<le> key (if key b < key x then x else b)" by simp
  also have "\<dots> \<le> key (max_by key (if key b < key x then x else b) xs)" by (rule Cons.IH)
  finally show ?case by simp
qed

lemma max_by_split:
  "\<exists>before after. b # xs = before @ max_by key b xs # after \<and>
     (\<forall>y\<in>set before. key y < key (max_by key b xs)) \<and>
     (\<forall>z\<in>set after. key z \<le> key (max_by key b xs))"
proof (induction xs arbitrary: b)
  case Nil
  have "[b] = [] @ max_by key b [] # [] \<and>
        (\<forall>y\<in>set []. key y < key (max_by key b [])) \<and>
        (\<forall>z\<in>set []. key z \<le> key (max_by key b []))" by simp
  then show ?case by blast
next
  case (Cons x xs)
  show ?case
  proof (cases "key b < key x")
    case True
    then have m: "max_by key b (x # xs) = max_by key x xs" by simp
    from Cons.IH [of x] obtain before after where
      s: "x # xs = before @ max_by key x xs # after"
      and l: "\<forall>y\<in>set before. key y < key (max_by key x xs)"
      and r: "\<forall>z\<in>set after. key z \<le> key (max_by key x xs)"
      by blast
    have "key b < key (max_by key x xs)"
      using True max_by_ge_best [of key x xs] by simp
    with s l r have "b # x # xs = (b # before) @ max_by key x xs # after \<and>
      (\<forall>y\<in>set (b # before). key y < key (max_by key x xs)) \<and>
      (\<forall>z\<in>set after. key z \<le> key (max_by key x xs))" by simp
    then show ?thesis unfolding m by blast
  next
    case False
    then have m: "max_by key b (x # xs) = max_by key b xs" by simp
    from Cons.IH [of b] obtain before after where
      s: "b # xs = before @ max_by key b xs # after"
      and l: "\<forall>y\<in>set before. key y < key (max_by key b xs)"
      and r: "\<forall>z\<in>set after. key z \<le> key (max_by key b xs)"
      by blast
    show ?thesis
    proof (cases before)
      case Nil
      have "b # xs = max_by key b xs # after" using s unfolding Nil append_Nil .
      then have "max_by key b xs = b" "xs = after" by (metis list.inject)+
      with False r have "b # x # xs = [] @ max_by key b xs # (x # after) \<and>
        (\<forall>y\<in>set []. key y < key (max_by key b xs)) \<and>
        (\<forall>z\<in>set (x # after). key z \<le> key (max_by key b xs))" by simp
      then show ?thesis unfolding m by blast
    next
      case (Cons c before')
      have "b # xs = c # before' @ max_by key b xs # after"
        using s unfolding Cons append_Cons .
      then have c: "c = b" and xs: "xs = before' @ max_by key b xs # after"
        by (metis list.inject)+
      from l Cons c have "key b < key (max_by key b xs)" by simp
      with False have "key x < key (max_by key b xs)" by simp
      with xs l r Cons c have "b # x # xs = (b # x # before') @ max_by key b xs # after \<and>
        (\<forall>y\<in>set (b # x # before'). key y < key (max_by key b xs)) \<and>
        (\<forall>z\<in>set after. key z \<le> key (max_by key b xs))" by simp
      then show ?thesis unfolding m by blast
    qed
  qed
qed

text \<open>
  Claim C7: for a non-empty list of detected regions the region passed to the
  classifier is one of maximal area \<open>w * h\<close>, and the earliest such in the detector's
  order: every region before it is strictly smaller, every region after it is no
  larger. For an empty detection list the outcome is no label and confidence 0, not
  an error.
\<close>

theorem largest_face_selected:
  assumes "face_cascade v = Some cascade"
  shows "(cascade image_array = Inr [] \<longrightarrow> detect_mood_from_image v image_array = (None, 0)) \<and>
         (cascade image_array = Inr (f # fs) \<and> mood_model v = Some model \<longrightarrow>
            (\<exists>before after.
               f # fs = before @ max_by face_area f fs # after \<and>
               (\<forall>g\<in>set before. face_area g < face_area (max_by face_area f fs)) \<and>
               (\<forall>g\<in>set after. face_area g \<le> face_area (max_by face_area f fs))) \<and>
            detect_mood_from_image v image_array =
              (case model image_array (max_by face_area f fs) of
                 Inl ex \<Rightarrow> (None, 0)
               | Inr [] \<Rightarrow> (None, 0)
               | Inr (p # ps) \<Rightarrow> (Some (mood_label (argmax_loop 1 0 p ps)), fold max ps p)))"
  using assms max_by_split [of f fs face_area]
  by (simp add: detect_mood_from_image_def split: option.splits)

text \<open>
  The theorem on three regions of areas 6, 6 and 1, where the first of the two largest
  is chosen wherever the small one stands, and on an empty detection list.
\<close>

theorem largest_face_selected_witness:
  "face_cascade (example_vision [(0, 0, 2, 3), (5, 5, 3, 2), (9, 9, 1, 1)]) \<noteq> None \<and>
   max_by face_area (0, 0, 2, 3) [(5, 5, 3, 2), (9, 9, 1, 1)] = (0, 0, 2, 3) \<and>
   max_by face_area (9, 9, 1, 1) [(0, 0, 2, 3), (5, 5, 3, 2)] = (0, 0, 2, 3) \<and>
   detect_mood_from_image (example_vision [(0, 0, 2, 3), (5, 5, 3, 2), (9, 9, 1, 1)]) 0 =
     (Some ''Disgust'', 1 / 2) \<and>
   detect_mood_from_image (example_vision []) 0 = (None, 0)"
proof -
  have a: "face_cascade (example_vision [(0, 0, 2, 3), (5, 5, 3, 2), (9, 9, 1, 1)]) =
           Some (\<lambda>img. Inr [(0, 0, 2, 3), (5, 5, 3, 2), (9, 9, 1, 1)])"
    by (simp add: example_vision_def)
  have b: "face_cascade (example_vision []) = Some (\<lambda>img. Inr [])"
    by (simp add: example_vision_def)
  have m: "mood_model (example_vision [(0, 0, 2, 3), (5, 5, 3, 2), (9, 9, 1, 1)]) =
           Some (\<lambda>img f. Inr [1 / 4, 1 / 2, 1 / 4])"
    by (simp add: example_vision_def)
  from largest_face_selected [OF a, of 0 "(0, 0, 2, 3)" "[(5, 5, 3, 2), (9, 9, 1, 1)]"
         "\<lambda>img f. Inr [1 / 4, 1 / 2, 1 / 4]"]
    largest_face_selected [OF b, of 0] a m
  show ?thesis by (simp add: mood_label_def MOOD_LABELS_def)
qed

section \<open>Properties of the streaming endpoint\<close>

text \<open>
  As long as the handler is still waiting after a prefix of the input, what follows is
  processed as it would be on its own.
\<close>

lemma websocket_append:
  "snd (websocket_video_mood v e before) = Connected \<Longrightarrow>
   websocket_video_mood v e (before @ rest) =
     (fst (websocket_video_mood v e before) @ fst (websocket_video_mood v e rest),
      snd (websocket_video_mood v e rest))"
proof (induction before)
  case Nil
  show ?case by simp
next
  case (Cons m before)
  show ?case
  proof (cases m)
    case (Message data)
    with Cons show ?thesis
      by (cases "py_in ''image'' data") (auto split: prod.splits bool.splits)
  next
    case NotJson
    with Cons.prems show ?thesis by simp
  next
    case Disconnect
    with Cons.prems show ?thesis by simp
  qed
qed

text \<open>
  A message in which Python finds no \<^verbatim>\<open>image\<close>, an object without the key among
  them, is answered with the inline error reply, and the loop goes on.
\<close>

lemma missing_image_inline_error:
  assumes "py_in ''image'' data = Inr False"
    and "snd (websocket_video_mood v e before) = Connected"
  shows "websocket_video_mood v e (before @ Message data # rest) =
           (fst (websocket_video_mood v e before) @
              ErrorReply ''No image data provided'' # fst (websocket_video_mood v e rest),
            snd (websocket_video_mood v e rest))"
  using assms websocket_append [of v e before "Message data # rest"]
  by (simp split: prod.splits)

text \<open>
  Claim C8, at the messages where it fails: a message that is JSON null, a boolean or a
  number lacks the \<^verbatim>\<open>image\<close> field, and on it the test \<^verbatim>\<open>"image" not in data\<close>
  raises outside the inner \<^verbatim>\<open>try\<close>. The handler ends there: the replies are those
  to the messages before it, no error reply is sent, and the messages after it are not
  processed.
\<close>

theorem non_container_message_ends_handler:
  assumes "snd (websocket_video_mood v e before) = Connected"
  shows "websocket_video_mood v e (before @ Message JNull # rest) =
           (fst (websocket_video_mood v e before), Failed) \<and>
         websocket_video_mood v e (before @ Message (JBool b) # rest) =
           (fst (websocket_video_mood v e before), Failed) \<and>
         websocket_video_mood v e (before @ Message (JNumber x) # rest) =
           (fst (websocket_video_mood v e before), Failed)"
  using websocket_append [OF assms] by simp

text \<open>One frame with an image, answered in \<open>example_vision\<close>.\<close>

lemma example_frame_reply:
  "websocket_video_mood (example_vision [(0, 0, 2, 3)]) (example_env [] [] [])
     [Message (example_frame t)] =
   ([MoodReply (Some ''Disgust'') (1 / 2) (JString t) None], Connected)"
proof -
  have d: "detect_mood_from_image (example_vision [(0, 0, 2, 3)]) 0 = (Some ''Disgust'', 1 / 2)"
    by (simp add: detect_mood_from_image_def example_vision_def mood_label_def MOOD_LABELS_def)
  have b: "base64_to_image (example_vision [(0, 0, 2, 3)]) ''abc'' = Inr 0"
    by (simp add: base64_to_image_def example_vision_def)
  show ?thesis
    by (simp add: example_frame_def process_frame_def d b truthy_def)
qed

text \<open>
  The theorem on three messages, the second the number 5: one reply, and the handler
  has failed. Beside it, the same with an object without the key in the second place:
  three replies, the second the inline error, and the handler still waiting.
\<close>

theorem non_container_message_ends_handler_witness:
  "snd (websocket_video_mood (example_vision [(0, 0, 2, 3)]) (example_env [] [] [])
          [Message (example_frame ''t0'')]) = Connected \<and>
   websocket_video_mood (example_vision [(0, 0, 2, 3)]) (example_env [] [] [])
     [Message (example_frame ''t0''), Message (JNumber 5), Message (example_frame ''t2'')] =
   ([MoodReply (Some ''Disgust'') (1 / 2) (JString ''t0'') None], Failed) \<and>
   websocket_video_mood (example_vision [(0, 0, 2, 3)]) (example_env [] [] [])
     [Message (example_frame ''t0''), Message example_frame_without_image,
      Message (example_frame ''t2'')] =
   ([MoodReply (Some ''Disgust'') (1 / 2) (JString ''t0'') None,
     ErrorReply ''No image data provided'',
     MoodReply (Some ''Disgust'') (1 / 2) (JString ''t2'') None], Connected)"
proof -
  let ?v = "example_vision [(0, 0, 2, 3)]" and ?e = "example_env [] [] []"
  have c: "snd (websocket_video_mood ?v ?e [Message (example_frame ''t0'')]) = Connected"
    by (simp only: example_frame_reply snd_conv)
  have n: "py_in ''image'' example_frame_without_image = Inr False"
    by (simp add: example_frame_without_image_def)
  from non_container_message_ends_handler
    [OF c, of "[Message (example_frame ''t2'')]" False 5]
  have 1: "websocket_video_mood ?v ?e
     [Message (example_frame ''t0''), Message (JNumber 5), Message (example_frame ''t2'')] =
   ([MoodReply (Some ''Disgust'') (1 / 2) (JString ''t0'') None], Failed)"
    by (simp only: example_frame_reply append.simps fst_conv)
  from missing_image_inline_error [OF n c, of "[Message (example_frame ''t2'')]"]
  have 2: "websocket_video_mood ?v ?e
     [Message (example_frame ''t0''), Message example_frame_without_image,
      Message (example_frame ''t2'')] =
   ([MoodReply (Some ''Disgust'') (1 / 2) (JString ''t0'') None,
     ErrorReply ''No image data provided'',
     MoodReply (Some ''Disgust'') (1 / 2) (JString ''t2'') None], Connected)"
    by (simp only: example_frame_reply append.simps fst_conv snd_conv)
  from c 1 2 show ?thesis by blast
qed

section \<open>The frame of the playlist cache\<close>

lemma create_frame:
  "created_playlists (snd (create_actual_spotify_playlist e tracks mood s)) = created_playlists s \<or>
   (token_accepted e \<and>
    (\<exists>mood' url. created_playlists s mood' = None \<and>
       created_playlists (snd (create_actual_spotify_playlist e tracks mood s)) =
         (created_playlists s)(mood' \<mapsto> url)))"
  using create_effect [of e tracks mood s "fst (create_actual_spotify_playlist e tracks mood s)"
          "snd (create_actual_spotify_playlist e tracks mood s)"]
  by auto

lemma playlist_endpoint_frame:
  "created_playlists (snd (get_playlist_by_mood e mood limit s)) = created_playlists s \<or>
   (token_accepted e \<and>
    (\<exists>mood' url. created_playlists s mood' = None \<and>
       created_playlists (snd (get_playlist_by_mood e mood limit s)) =
         (created_playlists s)(mood' \<mapsto> url)))"
proof -
  define P where "P st \<longleftrightarrow>
    created_playlists st = created_playlists s \<or>
    (token_accepted e \<and>
     (\<exists>mood' url. created_playlists s mood' = None \<and>
        created_playlists st = (created_playlists s)(mood' \<mapsto> url)))" for st :: state
  have a: "P s" by (simp add: P_def)
  have b: "P (snd (create_actual_spotify_playlist e tracks m s))" for tracks m
    using create_frame [of e tracks m s] unfolding P_def .
  have "P (snd (get_playlist_by_mood e mood limit s))"
    by (simp add: get_playlist_by_mood_def Let_def case_prod_beta a b)
  then show ?thesis unfolding P_def .
qed

lemma detect_and_playlist_frame:
  "created_playlists (snd (detect_mood_and_get_playlist v e b64 limit s)) = created_playlists s \<or>
   (token_accepted e \<and>
    (\<exists>mood' url. created_playlists s mood' = None \<and>
       created_playlists (snd (detect_mood_and_get_playlist v e b64 limit s)) =
         (created_playlists s)(mood' \<mapsto> url)))"
proof -
  define P where "P st \<longleftrightarrow>
    created_playlists st = created_playlists s \<or>
    (token_accepted e \<and>
     (\<exists>mood' url. created_playlists s mood' = None \<and>
        created_playlists st = (created_playlists s)(mood' \<mapsto> url)))" for st :: state
  have a: "P s" by (simp add: P_def)
  have b: "P (snd (create_actual_spotify_playlist e tracks m s))" for tracks m
    using create_frame [of e tracks m s] unfolding P_def .
  have "P (snd (detect_mood_and_get_playlist v e b64 limit s))"
    by (simp add: detect_mood_and_get_playlist_def Let_def case_prod_beta a b
             split: sum.splits option.splits)
  then show ?thesis unfolding P_def .
qed

text \<open>
  Claim C10, as amended: whatever operation runs, \<^verbatim>\<open>created_playlists\<close> afterwards is
  what it was, or what it was with one entry added for a mood not yet cached, by a
  playlist request under an accepted token, or empty, after cleanup under an accepted
  token. A playlist creation that returns a URL for an uncached mood adds exactly that
  entry. A cleanup clears the cache when it reports a deleted playlist, and whenever,
  under an accepted token, the listing holds a playlist with the brand prefix. So the
  search, the fallback URL generator, the detection, the streaming loop and every
  request without an accepted token leave the cache unchanged.
\<close>

theorem cache_mutated_only_by_creation_and_cleanup:
  assumes "run_operation v e op s = Some s'"
  shows "(created_playlists s' = created_playlists s \<or>
          (is_playlist_request op \<and> token_accepted e \<and>
           (\<exists>mood url. created_playlists s mood = None \<and>
                        created_playlists s' = (created_playlists s)(mood \<mapsto> url))) \<or>
          (op = OpCleanup \<and> token_accepted e \<and> created_playlists s' = Map.empty)) \<and>
         (op = OpCreatePlaylist tracks mood \<and> created_playlists s mood = None \<and>
          fst (create_actual_spotify_playlist e tracks mood s) = Some url \<longrightarrow>
            created_playlists s' = (created_playlists s)(mood \<mapsto> url)) \<and>
         (op = OpCleanup \<and> map_option fst (cleanup_kaguya_playlists e s) = Some (Inr resp) \<and>
          deleted_playlists resp \<noteq> [] \<longrightarrow> created_playlists s' = Map.empty) \<and>
         (op = OpCleanup \<and> token_accepted e \<and> current_user e = Inr user_id \<and>
          (\<forall>off. current_user_playlists e 50 off = Inr (take 50 (drop off owned))) \<and>
          (\<exists>p\<in>set owned. is_kaguya (str_lower e) p) \<longrightarrow>
            created_playlists s' = Map.empty)"
proof (intro conjI impI)
  show "created_playlists s' = created_playlists s \<or>
          (is_playlist_request op \<and> token_accepted e \<and>
           (\<exists>mood url. created_playlists s mood = None \<and>
                        created_playlists s' = (created_playlists s)(mood \<mapsto> url))) \<or>
          (op = OpCleanup \<and> token_accepted e \<and> created_playlists s' = Map.empty)"
  proof (cases op)
    case (OpCreatePlaylist ts m)
    with assms create_frame [of e ts m s] show ?thesis by auto
  next
    case (OpPlaylistEndpoint m limit)
    with assms playlist_endpoint_frame [of e m limit s]
    show ?thesis by auto
  next
    case (OpMoodAndPlaylist b64 limit)
    with assms detect_and_playlist_frame [of v e b64 limit s]
    show ?thesis by auto
  next
    case OpCleanup
    with assms obtain r where "cleanup_kaguya_playlists e s = Some (r, s')" by auto
    from cleanup_effect [OF this] OpCleanup show ?thesis by auto
  qed (use assms in auto)
next
  assume "op = OpCreatePlaylist tracks mood \<and> created_playlists s mood = None \<and>
          fst (create_actual_spotify_playlist e tracks mood s) = Some url"
  with assms create_effect [of e tracks mood s "Some url" s']
  show "created_playlists s' = (created_playlists s)(mood \<mapsto> url)"
    by (auto simp: prod_eq_iff)
next
  assume a: "op = OpCleanup \<and> map_option fst (cleanup_kaguya_playlists e s) = Some (Inr resp) \<and>
          deleted_playlists resp \<noteq> []"
  with assms have "cleanup_kaguya_playlists e s = Some (Inr resp, s')" by auto
  from cleanup_effect [OF this] a show "created_playlists s' = Map.empty" by auto
next
  assume a: "op = OpCleanup \<and> token_accepted e \<and> current_user e = Inr user_id \<and>
          (\<forall>off. current_user_playlists e 50 off = Inr (take 50 (drop off owned))) \<and>
          (\<exists>p\<in>set owned. is_kaguya (str_lower e) p)"
  then obtain r s2 where c: "cleanup_kaguya_playlists e s = Some (r, s2)"
    and e: "created_playlists s2 = Map.empty"
    using cleanup_run [of e user_id owned s] by blast
  from a c assms have "s' = s2" by simp
  with e show "created_playlists s' = Map.empty" by simp
qed

text \<open>A cleanup run in \<open>example_env\<close>, evaluated in full.\<close>

lemma example_cleanup:
  "cleanup_kaguya_playlists (example_env [] example_owned [''3'']) example_created_state =
     Some (Inr \<lparr>status = ''success'', deleted_count = 3,
                deleted_playlists =
                  [example_playlist ''1'' ''kaguya happy mood'',
                   example_playlist ''4'' ''Kaguya Angry Mood'',
                   example_playlist ''6'' kelvin_name]\<rparr>,
           \<lparr>created_playlists = Map.empty,
            api_calls =
              [CurrentUser, CurrentUser,
               UserPlaylistCreate ''me'' ''kaguya happy mood''
                 ''curated happy playlist generated by kaguya ai mood detection'',
               PlaylistAddItems ''p1'' [''spotify:track:a''],
               CurrentUser, CurrentUser, CurrentUserPlaylists 50 0,
               UserPlaylistUnfollow ''me'' ''1'', UserPlaylistUnfollow ''me'' ''3'',
               UserPlaylistUnfollow ''me'' ''4'', UserPlaylistUnfollow ''me'' ''6'']\<rparr>)"
proof -
  have f: "fetch_playlists (example_env [] example_owned [''3'']) 0 [] s =
           Some (Inr example_owned, log_call (CurrentUserPlaylists 50 0) s)" for s
    by (subst fetch_playlists.simps) (simp add: example_env_def example_owned_def)
  have l: "str_lower (example_env [] example_owned [''3'']) = example_str_lower"
    by (simp add: example_env_def)
  show ?thesis
    unfolding cleanup_kaguya_playlists_def f l
    by (simp add: get_authenticated_spotify_client_def Let_def example_owned_kaguya
          example_env_def example_created_state_def log_call_def example_playlist_def)
qed

text \<open>
  The theorem on a creation from an empty cache, on the cleanup that follows it, and
  on a playlist request without OAuth configuration.
\<close>

theorem cache_mutated_only_by_creation_and_cleanup_witness:
  "run_operation (example_vision []) (example_env [] [] [])
     (OpCreatePlaylist example_tracks ''Happy'') empty_state = Some example_created_state \<and>
   created_playlists example_created_state =
     (created_playlists empty_state)(''Happy'' \<mapsto> ''https://open.spotify.com/playlist/p1'') \<and>
   token_accepted (example_env [] example_owned [''3'']) \<and>
   created_playlists
     (the (run_operation (example_vision []) (example_env [] example_owned [''3''])
             OpCleanup example_created_state)) = Map.empty \<and>
   \<not> token_accepted unauthenticated_env \<and>
   created_playlists
     (the (run_operation (example_vision []) unauthenticated_env
             (OpPlaylistEndpoint ''Happy'' 20) empty_state)) = created_playlists empty_state"
proof -
  let ?v = "example_vision [] :: nat vision"
  let ?e = "example_env [] example_owned [''3'']"
  let ?url = "''https://open.spotify.com/playlist/p1''"
  let ?resp = "\<lparr>status = ''success'', deleted_count = 3,
                deleted_playlists =
                  [example_playlist ''1'' ''kaguya happy mood'',
                   example_playlist ''4'' ''Kaguya Angry Mood'',
                   example_playlist ''6'' kelvin_name]\<rparr>"
  have c: "run_operation ?v (example_env [] [] [])
     (OpCreatePlaylist example_tracks ''Happy'') empty_state = Some example_created_state"
    by (simp add: example_creation)
  have n: "created_playlists empty_state ''Happy'' = None" by (simp add: empty_state_def)
  have fc: "fst (create_actual_spotify_playlist (example_env [] [] []) example_tracks ''Happy''
                   empty_state) = Some ?url"
    by (simp add: example_creation)
  from cache_mutated_only_by_creation_and_cleanup
    [OF c, of example_tracks "''Happy''" ?url ?resp "''me''" example_owned] n fc
  have 1: "created_playlists example_created_state =
     (created_playlists empty_state)(''Happy'' \<mapsto> ?url)"
    by blast
  have d: "run_operation ?v ?e OpCleanup example_created_state =
           Some (snd (the (cleanup_kaguya_playlists ?e example_created_state)))"
    by (simp add: example_cleanup)
  have l: "str_lower ?e = example_str_lower" by (simp add: example_env_def)
  have t: "token_accepted ?e" by (simp add: token_accepted_def example_env_def)
  have u: "current_user ?e = Inr ''me''" by (simp add: example_env_def)
  have p: "\<forall>off. current_user_playlists ?e 50 off = Inr (take 50 (drop off example_owned))"
    by (simp add: example_env_def)
  have k: "\<exists>p\<in>set example_owned. is_kaguya (str_lower ?e) p"
    unfolding l using example_owned_kaguya by (metis filter_empty_conv list.distinct(1))
  from cache_mutated_only_by_creation_and_cleanup
    [OF d, of example_tracks "''Happy''" ?url ?resp "''me''" example_owned] t u p k
  have "created_playlists (snd (the (cleanup_kaguya_playlists ?e example_created_state))) =
        Map.empty"
    by blast
  then have 2: "created_playlists (the (run_operation ?v ?e OpCleanup example_created_state)) =
        Map.empty"
    by (simp only: d option.sel)
  have na: "\<not> token_accepted unauthenticated_env"
    by (simp add: token_accepted_def unauthenticated_env_def)
  have q: "run_operation ?v unauthenticated_env (OpPlaylistEndpoint ''Happy'' 20) empty_state =
     Some (snd (get_playlist_by_mood unauthenticated_env ''Happy'' 20 empty_state))"
    by simp
  have o: "(OpPlaylistEndpoint ''Happy'' 20 :: nat operation) \<noteq> OpCleanup" by simp
  from cache_mutated_only_by_creation_and_cleanup
    [OF q, of example_tracks "''Happy''" ?url ?resp "''me''" example_owned] na o
  have "created_playlists (snd (get_playlist_by_mood unauthenticated_env ''Happy'' 20 empty_state)) =
        created_playlists empty_state"
    by blast
  then have 3: "created_playlists
     (the (run_operation ?v unauthenticated_env (OpPlaylistEndpoint ''Happy'' 20) empty_state)) =
     created_playlists empty_state"
    by (simp only: q option.sel)
  from c 1 t 2 na 3 show ?thesis by blast
qed

text \<open>
  A cleanup in authenticated mode over a listing without any playlist of the brand
  prefix, evaluated in full: it answers before the clearing.
\<close>

lemma example_cleanup_without_match:
  "cleanup_kaguya_playlists (example_env [] [example_playlist ''2'' ''Road trip''] [])
     example_created_state =
     Some (Inr \<lparr>status = ''success'', deleted_count = 0, deleted_playlists = []\<rparr>,
           example_created_state
             \<lparr>api_calls := api_calls example_created_state @
                [CurrentUser, CurrentUser, CurrentUserPlaylists 50 0]\<rparr>)"
proof -
  have f: "fetch_playlists (example_env [] [example_playlist ''2'' ''Road trip''] []) 0 [] s =
           Some (Inr [example_playlist ''2'' ''Road trip''],
                 log_call (CurrentUserPlaylists 50 0) s)" for s
    by (subst fetch_playlists.simps) (simp add: example_env_def)
  have k: "\<not> is_kaguya example_str_lower (example_playlist ''2'' ''Road trip'')"
    by (simp add: is_kaguya_def startswith_def lower_def is_ascii_def lower_char_def
          example_playlist_def)
  have l: "str_lower (example_env [] [example_playlist ''2'' ''Road trip''] []) =
           example_str_lower"
    by (simp add: example_env_def)
  show ?thesis
    unfolding cleanup_kaguya_playlists_def f l
    by (simp add: get_authenticated_spotify_client_def Let_def k
          example_env_def example_created_state_def log_call_def)
qed

text \<open>
  Claim C10 as stated fails: under an accepted token, a cleanup that finds no playlist
  with the brand prefix answers with success and leaves the entry for \<^verbatim>\<open>Happy\<close>
  in the cache.
\<close>

theorem cleanup_without_match_counterexample:
  "token_accepted (example_env [] [example_playlist ''2'' ''Road trip''] []) \<and>
   map_option fst
     (cleanup_kaguya_playlists (example_env [] [example_playlist ''2'' ''Road trip''] [])
        example_created_state) =
     Some (Inr \<lparr>status = ''success'', deleted_count = 0, deleted_playlists = []\<rparr>) \<and>
   created_playlists
     (the (run_operation (example_vision [] :: nat vision)
             (example_env [] [example_playlist ''2'' ''Road trip''] [])
             OpCleanup example_created_state)) ''Happy'' =
     Some ''https://open.spotify.com/playlist/p1''"
proof -
  have t: "token_accepted (example_env [] [example_playlist ''2'' ''Road trip''] [])"
    by (simp add: token_accepted_def example_env_def)
  show ?thesis
    using t unfolding run_operation.simps example_cleanup_without_match
    by (simp add: example_created_state_def)
qed

end
